theory Spec2Isabelle
  imports Complex_Main "HOL-Library.Multiset"
begin

section \<open>Voxel-space analysis of tractographies (tract\_math operations)\<close>

text \<open>
  The operations of \<^verbatim>\<open>tract_querier/tract_math/operations.py\<close> that work on the
  geometry of streamlines. A streamline is a numpy array of shape \<open>(n, 3)\<close>, here a list
  of points; a point is a triple of coordinates. numpy's \<open>float64\<close> values are idealised
  as real numbers (rounding is not modelled). \<open>int64\<close> values are integers; the wrap-around
  of \<open>int64\<close> is written out for the differences and the products of the kappa value and
  for the cast of the voxelizer (the neighbours of a voxel, whose indices differ from its
  own by one, are taken not to wrap). A float that
  is \<open>inf\<close> or \<open>NaN\<close> is the value \<open>None\<close> where the code computes on with it; the outcome
  \<open>Nonfinite\<close> is that of the probability map of a tractography without streamlines,
  a grid of \<open>NaN\<close> entries.
\<close>

type_synonym vec3 = "real \<times> real \<times> real"
type_synonym voxel = "int \<times> int \<times> int"
type_synonym streamline = "vec3 list"

datatype error = ValueError | IndexError | ZeroDivisionError | LinAlgError

datatype 'a outcome = Raises error | Nonfinite | Returns 'a

fun bind_outcome :: "'a outcome \<Rightarrow> ('a \<Rightarrow> 'b outcome) \<Rightarrow> 'b outcome" where
  "bind_outcome (Raises e) f = Raises e"
| "bind_outcome Nonfinite f = Nonfinite"
| "bind_outcome (Returns x) f = f x"

subsection \<open>Voxelizer\<close>

text \<open>
  \<^verbatim>\<open>ndarray.round(0)\<close> rounds to the nearest integer, and a value half way between two
  integers to the even one.
\<close>

definition np_round :: "real \<Rightarrow> int" where
  "np_round x =
     (let f = \<lfloor>x\<rfloor>; r = x - of_int f
      in if r < 1 / 2 then f
         else if 1 / 2 < r then f + 1
         else if even f then f else f + 1)"

definition round_point :: "vec3 \<Rightarrow> voxel" where
  "round_point p = (case p of (x, y, z) \<Rightarrow> (np_round x, np_round y, np_round z))"

definition div_point :: "vec3 \<Rightarrow> real \<Rightarrow> vec3" where
  "div_point p r = (case p of (x, y, z) \<Rightarrow> (x / r, y / r, z / r))"

text \<open>
  \<^verbatim>\<open>numpy.vstack\<close> raises \<open>ValueError\<close> on an empty list of arrays, and returns a new
  array otherwise, so that the division in place does not reach the streamlines.
\<close>

text \<open>
  \<open>int64\<close> arithmetic wraps around, and the cast of a float that is \<open>inf\<close>, \<open>NaN\<close> or
  outside the range of \<open>int64\<close> gives the smallest \<open>int64\<close> (on x86-64, where the cast is
  the processor's).
\<close>

definition int64 :: "int \<Rightarrow> int" where
  "int64 n = (n + 2 ^ 63) mod 2 ^ 64 - 2 ^ 63"

definition int64_min :: int where
  "int64_min = - (2 ^ 63)"

definition cast_int64 :: "int \<Rightarrow> int" where
  "cast_int64 n = (if - (2 ^ 63) \<le> n \<and> n < 2 ^ 63 then n else int64_min)"

definition vstack :: "streamline list \<Rightarrow> vec3 list outcome" where
  "vstack tracts = (if tracts = [] then Raises ValueError else Returns (concat tracts))"

text \<open>
  \<^verbatim>\<open>
  def voxelized_tract(tractography, resolution):
      all_points = numpy.vstack(tractography.tracts())
      all_points /= resolution
      all_points = all_points.round(0).astype(int)
      return set(izip(*(all_points.T)))
  \<close>
  There is no check of \<open>resolution\<close>. A division by \<open>0.0\<close> does not raise: it makes every
  coordinate \<open>inf\<close> or \<open>NaN\<close>, which the cast turns into the smallest \<open>int64\<close>.
\<close>

definition voxel_of_point :: "real \<Rightarrow> vec3 \<Rightarrow> voxel" where
  "voxel_of_point resolution p =
     (if resolution = 0 then (int64_min, int64_min, int64_min)
      else case round_point (div_point p resolution) of
             (i, j, k) \<Rightarrow> (cast_int64 i, cast_int64 j, cast_int64 k))"

definition voxelized_tract :: "streamline list \<Rightarrow> real \<Rightarrow> voxel set outcome" where
  "voxelized_tract tracts resolution =
     bind_outcome (vstack tracts) (\<lambda>all_points.
       Returns (set (map (voxel_of_point resolution) all_points)))"

subsection \<open>Dice coefficient\<close>

text \<open>
  The body of the loop of \<^verbatim>\<open>tract_dice\<close>:
  \<^verbatim>\<open>2 * len(voxels.intersection(voxels1)) * 1. / (len(voxels) + len(voxels1))\<close>.
  Both operands of the division are Python numbers (a \<open>float\<close> and an \<open>int\<close>), so a zero
  divisor raises \<open>ZeroDivisionError\<close>.
\<close>

definition dice_coefficient :: "voxel set \<Rightarrow> voxel set \<Rightarrow> real outcome" where
  "dice_coefficient voxels voxels1 =
     (if card voxels + card voxels1 = 0 then Raises ZeroDivisionError
      else Returns (2 * real (card (voxels \<inter> voxels1)) * 1 / real (card voxels + card voxels1)))"

fun dice_rows :: "voxel set \<Rightarrow> real \<Rightarrow> streamline list list \<Rightarrow> real list outcome" where
  "dice_rows voxels resolution [] = Returns []"
| "dice_rows voxels resolution (tract # other_tracts) =
     bind_outcome (voxelized_tract tract resolution) (\<lambda>voxels1.
     bind_outcome (dice_coefficient voxels voxels1) (\<lambda>d.
     bind_outcome (dice_rows voxels resolution other_tracts) (\<lambda>ds. Returns (d # ds))))"

definition tract_dice :: "streamline list \<Rightarrow> real \<Rightarrow> streamline list list \<Rightarrow> real list outcome" where
  "tract_dice tractography resolution other_tracts =
     bind_outcome (voxelized_tract tractography resolution) (\<lambda>voxels.
       dice_rows voxels resolution other_tracts)"

subsection \<open>Cohen's kappa\<close>

text \<open>
  \<^verbatim>\<open>all_voxels.max(0)\<close> and \<^verbatim>\<open>all_voxels.min(0)\<close> are the maxima and minima of the
  three columns of the array of all voxels; both raise \<open>ValueError\<close> on an array without
  rows, which the caller checks here.
\<close>

definition column_max :: "voxel set \<Rightarrow> voxel" where
  "column_max rows = (Max ((\<lambda>(i, j, k). i) ` rows), Max ((\<lambda>(i, j, k). j) ` rows), Max ((\<lambda>(i, j, k). k) ` rows))"

definition column_min :: "voxel set \<Rightarrow> voxel" where
  "column_min rows = (Min ((\<lambda>(i, j, k). i) ` rows), Min ((\<lambda>(i, j, k). j) ` rows), Min ((\<lambda>(i, j, k). k) ` rows))"

definition sub_voxel :: "voxel \<Rightarrow> voxel \<Rightarrow> voxel" where
  "sub_voxel a b =
     (case a of (i, j, k) \<Rightarrow> case b of (i', j', k') \<Rightarrow>
        (int64 (i - i'), int64 (j - j'), int64 (k - k')))"

definition add_voxel :: "voxel \<Rightarrow> voxel \<Rightarrow> voxel" where
  "add_voxel a b = (case a of (i, j, k) \<Rightarrow> case b of (i', j', k') \<Rightarrow> (i + i', j + j', k + k'))"

definition prod_voxel :: "voxel \<Rightarrow> int" where
  "prod_voxel a = (case a of (i, j, k) \<Rightarrow> int64 (int64 (i * j) * k))"

text \<open>
  The body of the loop of \<^verbatim>\<open>tract_kappa\<close>:
  \<^verbatim>\<open>
  all_voxels = numpy.array(list(voxels.union(voxels1)))
  N = (all_voxels.max(0) - all_voxels.min(0)).prod()
  pp = len(voxels.intersection(voxels1)) * 1.
  pn = len(voxels.difference(voxels1)) * 1.
  np = len(voxels1.difference(voxels)) * 1.
  nn = N - pp - pn - np
  observed_agreement = (pp + nn) / N
  chance_agreement = (
      (pp + pn) * (pp + np) + (nn + np) * (nn + pn)) / (N * N)
  k = (observed_agreement - chance_agreement) / (1 - chance_agreement)
  \<close>
  \<open>N\<close> is a numpy \<open>int64\<close>, and so are the differences, their product and \<open>N * N\<close>,
  which wrap around; the other values are numpy floats, so a division by zero does not
  raise: it gives \<open>inf\<close> or \<open>NaN\<close>, and so does everything computed from it. The value
  \<open>None\<close> is such a result.
\<close>

definition kappa_value :: "voxel set \<Rightarrow> voxel set \<Rightarrow> real option outcome" where
  "kappa_value voxels voxels1 =
     (let all_voxels = voxels \<union> voxels1
      in if all_voxels = {} then Raises ValueError
         else
           let N = prod_voxel (sub_voxel (column_max all_voxels) (column_min all_voxels));
               pp = real (card (voxels \<inter> voxels1)) * 1;
               pn = real (card (voxels - voxels1)) * 1;
               np = real (card (voxels1 - voxels)) * 1;
               nn = real_of_int N - pp - pn - np
           in if N = 0 \<or> int64 (N * N) = 0 then Returns None
              else
                let observed_agreement = (pp + nn) / real_of_int N;
                    chance_agreement =
                      ((pp + pn) * (pp + np) + (nn + np) * (nn + pn)) / real_of_int (int64 (N * N))
                in if 1 - chance_agreement = 0 then Returns None
                   else Returns (Some ((observed_agreement - chance_agreement)
                                        / (1 - chance_agreement))))"

fun kappa_rows ::
  "voxel set \<Rightarrow> real \<Rightarrow> streamline list list \<Rightarrow> real option list outcome" where
  "kappa_rows voxels resolution [] = Returns []"
| "kappa_rows voxels resolution (tract # other_tracts) =
     bind_outcome (voxelized_tract tract resolution) (\<lambda>voxels1.
     bind_outcome (kappa_value voxels voxels1) (\<lambda>k.
     bind_outcome (kappa_rows voxels resolution other_tracts) (\<lambda>ks. Returns (k # ks))))"

definition tract_kappa ::
  "streamline list \<Rightarrow> real \<Rightarrow> streamline list list \<Rightarrow> real option list outcome" where
  "tract_kappa tractography resolution other_tracts =
     bind_outcome (voxelized_tract tractography resolution) (\<lambda>voxels.
       kappa_rows voxels resolution other_tracts)"

text \<open>
  The quantities of the specification: the extent of a voxel set along an axis is the
  difference of its largest and its smallest index there, and \<open>N\<close> is the product of the
  three extents of the union.
\<close>

definition axis_extent :: "(voxel \<Rightarrow> int) \<Rightarrow> voxel set \<Rightarrow> int" where
  "axis_extent axis S = Max (axis ` S) - Min (axis ` S)"

definition bounding_box_N :: "voxel set \<Rightarrow> int" where
  "bounding_box_N S =
     axis_extent (\<lambda>(i, j, k). i) S * axis_extent (\<lambda>(i, j, k). j) S * axis_extent (\<lambda>(i, j, k). k) S"

definition spec_nn :: "voxel set \<Rightarrow> voxel set \<Rightarrow> real" where
  "spec_nn A B =
     real_of_int (bounding_box_N (A \<union> B)) - real (card (A \<inter> B)) - real (card (A - B)) - real (card (B - A))"

definition spec_observed :: "voxel set \<Rightarrow> voxel set \<Rightarrow> real" where
  "spec_observed A B = (real (card (A \<inter> B)) + spec_nn A B) / real_of_int (bounding_box_N (A \<union> B))"

definition spec_chance :: "voxel set \<Rightarrow> voxel set \<Rightarrow> real" where
  "spec_chance A B =
     ((real (card (A \<inter> B)) + real (card (A - B))) * (real (card (A \<inter> B)) + real (card (B - A)))
      + (spec_nn A B + real (card (B - A))) * (spec_nn A B + real (card (A - B))))
     / (real_of_int (bounding_box_N (A \<union> B)))\<^sup>2"

subsection \<open>Volume estimate\<close>

text \<open>
  \<^verbatim>\<open>
  neighbors = numpy.array([[0, 1, 0], [0, -1, 0], [1, 0, 0], [-1, 0, 0], [0, 0, 1], [0, 0, -1]])
  dilated_voxels = set()
  dilated_voxels.update(voxels)
  eroded_voxels = set()
  for voxel in voxels:
      neighbors_list = zip(*(neighbors + voxel).T)
      dilated_voxels.update(neighbors_list)
      if len(voxels.intersection(neighbors_list)) == len(neighbors):
          eroded_voxels.add(voxel)
  approx_voxels = (len(dilated_voxels) - len(eroded_voxels)) / 2.
  return {'tract volume': approx_voxels * (resolution ** 3)}
  \<close>
  The loop adds to two sets, so the order in which it visits the voxels does not matter.
\<close>

definition neighbors :: "voxel list" where
  "neighbors = [(0, 1, 0), (0, - 1, 0), (1, 0, 0), (- 1, 0, 0), (0, 0, 1), (0, 0, - 1)]"

definition neighbors_list :: "voxel \<Rightarrow> voxel list" where
  "neighbors_list voxel = map (\<lambda>n. add_voxel n voxel) neighbors"

definition dilated_voxels :: "voxel set \<Rightarrow> voxel set" where
  "dilated_voxels voxels = voxels \<union> (\<Union>voxel\<in>voxels. set (neighbors_list voxel))"

definition eroded_voxels :: "voxel set \<Rightarrow> voxel set" where
  "eroded_voxels voxels =
     {voxel \<in> voxels. card (voxels \<inter> set (neighbors_list voxel)) = length neighbors}"

definition volume_of_voxels :: "voxel set \<Rightarrow> real \<Rightarrow> real" where
  "volume_of_voxels voxels resolution =
     (let approx_voxels =
            real_of_int (int (card (dilated_voxels voxels)) - int (card (eroded_voxels voxels))) / 2
      in approx_voxels * resolution ^ 3)"

definition tract_volume :: "streamline list \<Rightarrow> real \<Rightarrow> real outcome" where
  "tract_volume tractography resolution =
     bind_outcome (voxelized_tract tractography resolution) (\<lambda>voxels.
       Returns (volume_of_voxels voxels resolution))"

subsection \<open>Bhattacharyya coefficient: the shared range of the histograms\<close>

text \<open>
  \<^verbatim>\<open>pts.min(0)\<close> and \<^verbatim>\<open>pts.max(0)\<close> are the column minima and maxima of a point
  array; they raise \<open>ValueError\<close> on an array without rows.
\<close>

definition points_min :: "vec3 list \<Rightarrow> vec3 outcome" where
  "points_min pts =
     (if pts = [] then Raises ValueError
      else Returns (Min ((\<lambda>(x, y, z). x) ` set pts), Min ((\<lambda>(x, y, z). y) ` set pts),
                    Min ((\<lambda>(x, y, z). z) ` set pts)))"

definition points_max :: "vec3 list \<Rightarrow> vec3 outcome" where
  "points_max pts =
     (if pts = [] then Raises ValueError
      else Returns (Max ((\<lambda>(x, y, z). x) ` set pts), Max ((\<lambda>(x, y, z). y) ` set pts),
                    Max ((\<lambda>(x, y, z). z) ` set pts)))"

definition minimum :: "vec3 \<Rightarrow> vec3 \<Rightarrow> vec3" where
  "minimum a b = (case a of (x, y, z) \<Rightarrow> case b of (x', y', z') \<Rightarrow> (min x x', min y y', min z z'))"

definition maximum :: "vec3 \<Rightarrow> vec3 \<Rightarrow> vec3" where
  "maximum a b = (case a of (x, y, z) \<Rightarrow> case b of (x', y', z') \<Rightarrow> (max x x', max y y', max z z'))"

text \<open>
  The range of the histograms in \<^verbatim>\<open>tract_bhattacharyya_coefficient\<close> (the source's
  variables \<^verbatim>\<open>mn_\<close> and \<^verbatim>\<open>mx_\<close> are \<open>mn\<close> and \<open>mx\<close> here):
  \<^verbatim>\<open>
  tractography_points = numpy.vstack(tractography.tracts())
  other_tracts_points = [numpy.vstack(t_.tracts()) for t_ in other_tracts_tractographies]
  mn_ = tractography_points.min(0)
  mx_ = tractography_points.max(0)
  for pts in other_tracts_points:
      mn_ = numpy.minimum(mn_, pts.min(0))
      mx_ = numpy.maximum(mn_, pts.max(0))
  \<close>
  The second assignment of the loop reads \<^verbatim>\<open>mn_\<close>, already updated, and not \<^verbatim>\<open>mx_\<close>.
\<close>

fun range_loop :: "vec3 \<Rightarrow> vec3 \<Rightarrow> vec3 list list \<Rightarrow> (vec3 \<times> vec3) outcome" where
  "range_loop mn mx [] = Returns (mn, mx)"
| "range_loop mn mx (pts # other_tracts_points) =
     bind_outcome (points_min pts) (\<lambda>pts_min.
       let mn = minimum mn pts_min
       in bind_outcome (points_max pts) (\<lambda>pts_max.
            let mx = maximum mn pts_max
            in range_loop mn mx other_tracts_points))"

fun vstack_all :: "streamline list list \<Rightarrow> vec3 list list outcome" where
  "vstack_all [] = Returns []"
| "vstack_all (t # ts) =
     bind_outcome (vstack t) (\<lambda>pts.
     bind_outcome (vstack_all ts) (\<lambda>rest. Returns (pts # rest)))"

definition bhattacharyya_range ::
  "streamline list \<Rightarrow> streamline list list \<Rightarrow> (vec3 \<times> vec3) outcome" where
  "bhattacharyya_range tractography other_tracts =
     bind_outcome (vstack tractography) (\<lambda>tractography_points.
     bind_outcome (vstack_all other_tracts) (\<lambda>other_tracts_points.
     bind_outcome (points_min tractography_points) (\<lambda>mn.
     bind_outcome (points_max tractography_points) (\<lambda>mx.
       range_loop mn mx other_tracts_points))))"

text \<open>
  The range of the specification: on each axis, the smallest and the largest coordinate
  of all the point clouds together.
\<close>

definition union_bounds :: "vec3 list list \<Rightarrow> vec3 \<times> vec3" where
  "union_bounds clouds =
     (let pts = set (concat clouds)
      in ((Min ((\<lambda>(x, y, z). x) ` pts), Min ((\<lambda>(x, y, z). y) ` pts), Min ((\<lambda>(x, y, z). z) ` pts)),
          (Max ((\<lambda>(x, y, z). x) ` pts), Max ((\<lambda>(x, y, z). y) ` pts), Max ((\<lambda>(x, y, z). z) ` pts))))"


subsection \<open>Rasterizer\<close>

text \<open>
  A grid is a three-dimensional numpy array, here a list of lists of lists. An image has
  a shape and an affine; \<^verbatim>\<open>numpy.linalg.solve(image.get_affine(), \<dots>)\<close> and
  \<^verbatim>\<open>numpy.linalg.inv(image.get_affine())\<close> are numpy's, and are not modelled: the image
  carries the map from physical to voxel coordinates that both compute, or \<open>None\<close> for a
  singular affine, on which both raise \<open>LinAlgError\<close>.
\<close>

type_synonym grid = "real list list list"

record image =
  image_shape :: "nat \<times> nat \<times> nat"
  ras_to_ijk :: "(vec3 \<Rightarrow> vec3) option"

definition tract_in_ijk :: "image \<Rightarrow> streamline list \<Rightarrow> vec3 list outcome" where
  "tract_in_ijk img tractography =
     bind_outcome (vstack tractography) (\<lambda>ras_points.
       case ras_to_ijk img of
         None \<Rightarrow> Raises LinAlgError
       | Some solve \<Rightarrow> Returns (map solve ras_points))"

fun each_tract_in_ijk :: "image \<Rightarrow> streamline list \<Rightarrow> vec3 list list outcome" where
  "each_tract_in_ijk img [] = Returns []"
| "each_tract_in_ijk img (tract # tracts) =
     (case ras_to_ijk img of
        None \<Rightarrow> Raises LinAlgError
      | Some inverse_affine \<Rightarrow>
          bind_outcome (each_tract_in_ijk img tracts) (\<lambda>ijk_tracts.
            Returns (map inverse_affine tract # ijk_tracts)))"

text \<open>
  \<^verbatim>\<open>ijk_points.clip((0, 0, 0), numpy.array(image_data.shape) - 1).astype(int)\<close>:
  numpy's \<open>clip\<close> is \<open>minimum(maximum(x, lo), hi)\<close>, and the cast to \<open>int\<close> truncates
  towards zero.
\<close>

definition clip :: "real \<Rightarrow> int \<Rightarrow> int \<Rightarrow> real" where
  "clip x lo hi = min (max x (of_int lo)) (of_int hi)"

definition astype_int :: "real \<Rightarrow> int" where
  "astype_int x = (if 0 \<le> x then \<lfloor>x\<rfloor> else \<lceil>x\<rceil>)"

definition ijk_clipped :: "nat \<times> nat \<times> nat \<Rightarrow> vec3 \<Rightarrow> voxel" where
  "ijk_clipped shape p =
     (case shape of (sx, sy, sz) \<Rightarrow> case p of (x, y, z) \<Rightarrow>
        (astype_int (clip x 0 (int sx - 1)), astype_int (clip y 0 (int sy - 1)),
         astype_int (clip z 0 (int sz - 1))))"

text \<open>
  An index into an axis of length \<open>n\<close> is valid from \<open>-n\<close> to \<open>n - 1\<close>, the negative ones
  counting from the end; any other raises \<open>IndexError\<close>.
\<close>

definition zeros :: "nat \<times> nat \<times> nat \<Rightarrow> grid" where
  "zeros shape = (case shape of (sx, sy, sz) \<Rightarrow> replicate sx (replicate sy (replicate sz 0)))"

definition np_index :: "nat \<Rightarrow> int \<Rightarrow> nat option" where
  "np_index n i =
     (if 0 \<le> i \<and> i < int n then Some (nat i)
      else if - int n \<le> i \<and> i < 0 then Some (nat (int n + i))
      else None)"

definition cell_index :: "nat \<times> nat \<times> nat \<Rightarrow> voxel \<Rightarrow> (nat \<times> nat \<times> nat) option" where
  "cell_index shape v =
     (case shape of (sx, sy, sz) \<Rightarrow> case v of (i, j, k) \<Rightarrow>
        (case (np_index sx i, np_index sy j, np_index sz k) of
           (Some a, Some b, Some c) \<Rightarrow> Some (a, b, c)
         | _ \<Rightarrow> None))"

definition get_cell :: "grid \<Rightarrow> nat \<times> nat \<times> nat \<Rightarrow> real" where
  "get_cell g c = (case c of (a, b, c) \<Rightarrow> g ! a ! b ! c)"

definition set_cell :: "grid \<Rightarrow> nat \<times> nat \<times> nat \<Rightarrow> real \<Rightarrow> grid" where
  "set_cell g c v = (case c of (a, b, c) \<Rightarrow> g[a := (g ! a)[b := (g ! a ! b)[c := v]]])"

fun cell_indices :: "nat \<times> nat \<times> nat \<Rightarrow> voxel list \<Rightarrow> (nat \<times> nat \<times> nat) list outcome" where
  "cell_indices shape [] = Returns []"
| "cell_indices shape (v # vs) =
     (case cell_index shape v of
        None \<Rightarrow> Raises IndexError
      | Some c \<Rightarrow> bind_outcome (cell_indices shape vs) (\<lambda>cs. Returns (c # cs)))"

text \<open>
  \<^verbatim>\<open>
  def tract_mask(image, tractography):
      ijk_points = tract_in_ijk(image, tractography)
      image_data = image.get_data()
      ijk_clipped = ijk_points.clip(
          (0, 0, 0), numpy.array(image_data.shape) - 1
      ).astype(int)
      mask = numpy.zeros_like(image_data, dtype=float)
      mask[tuple(ijk_clipped.T)] = 1
      return mask
  \<close>
\<close>

definition tract_mask :: "image \<Rightarrow> streamline list \<Rightarrow> grid outcome" where
  "tract_mask img tractography =
     bind_outcome (tract_in_ijk img tractography) (\<lambda>ijk_points.
       let clipped = map (ijk_clipped (image_shape img)) ijk_points;
           mask = zeros (image_shape img)
       in bind_outcome (cell_indices (image_shape img) clipped) (\<lambda>cells.
            Returns (fold (\<lambda>c m. set_cell m c 1) cells mask)))"

text \<open>
  In \<^verbatim>\<open>tract_probability_map\<close> the assignment
  \<^verbatim>\<open>probability_map[tuple(ijk_clipped.T)] += 1\<close> reads the cells, adds one and writes them
  back, so a cell that a streamline touches several times grows by one. The division
  \<^verbatim>\<open>probability_map /= len(ijk_tracts)\<close> of a float array does not raise on zero.
\<close>

definition grid_cells :: "nat \<times> nat \<times> nat \<Rightarrow> nat" where
  "grid_cells shape = (case shape of (sx, sy, sz) \<Rightarrow> sx * sy * sz)"

definition map_grid :: "(real \<Rightarrow> real) \<Rightarrow> grid \<Rightarrow> grid" where
  "map_grid f g = map (map (map f)) g"

definition map2_grid :: "(real \<Rightarrow> real \<Rightarrow> real) \<Rightarrow> grid \<Rightarrow> grid \<Rightarrow> grid" where
  "map2_grid f g h = map2 (map2 (map2 f)) g h"

fun count_tracts :: "nat \<times> nat \<times> nat \<Rightarrow> vec3 list list \<Rightarrow> grid \<Rightarrow> grid outcome" where
  "count_tracts shape [] probability_map = Returns probability_map"
| "count_tracts shape (ijk_points # ijk_tracts) probability_map =
     bind_outcome (cell_indices shape (map (ijk_clipped shape) ijk_points)) (\<lambda>cells.
       count_tracts shape ijk_tracts
         (fold (\<lambda>c m. set_cell m c (get_cell probability_map c + 1)) cells probability_map))"

definition tract_probability_map :: "image \<Rightarrow> streamline list \<Rightarrow> grid outcome" where
  "tract_probability_map img tractography =
     bind_outcome (each_tract_in_ijk img tractography) (\<lambda>ijk_tracts.
     bind_outcome (count_tracts (image_shape img) ijk_tracts (zeros (image_shape img)))
       (\<lambda>probability_map.
          if length ijk_tracts = 0 \<and> grid_cells (image_shape img) \<noteq> 0 then Nonfinite
          else Returns (map_grid (\<lambda>x. x / real (length ijk_tracts)) probability_map)))"

text \<open>
  \<^verbatim>\<open>
  def tract_generate_probability_map(tractographies, image, file_output):
      image = nibabel.load(image)
      prob_map = tract_probability_map(image, tractographies[0][1]).astype(float)
      for tract in tractographies[1:]:
          if len(tract[1].tracts()) == 0:
              continue
          new_prob_map = tract_mask(image, tract[1])
          prob_map = prob_map + new_prob_map - (prob_map * new_prob_map)
      return SpatialImage(prob_map, image.get_affine())
  \<close>
  \<open>union_step\<close> is the body of the loop.
\<close>

definition union_step :: "image \<Rightarrow> grid \<Rightarrow> streamline list \<Rightarrow> grid outcome" where
  "union_step img prob_map tract =
     (if length tract = 0 then Returns prob_map
      else bind_outcome (tract_mask img tract) (\<lambda>new_prob_map.
             Returns (map2_grid (\<lambda>p m. p + m - p * m) prob_map new_prob_map)))"

fun union_loop :: "image \<Rightarrow> grid \<Rightarrow> streamline list list \<Rightarrow> grid outcome" where
  "union_loop img prob_map [] = Returns prob_map"
| "union_loop img prob_map (tract # tracts) =
     bind_outcome (union_step img prob_map tract) (\<lambda>prob_map. union_loop img prob_map tracts)"

definition tract_generate_probability_map :: "streamline list list \<Rightarrow> image \<Rightarrow> grid outcome" where
  "tract_generate_probability_map tractographies img =
     (case tractographies of
        [] \<Rightarrow> Raises IndexError
      | first # others \<Rightarrow>
          bind_outcome (tract_probability_map img first) (\<lambda>prob_map.
            union_loop img prob_map others))"

text \<open>
  The voxel set of the specification: the voxel index of every point (its voxel
  coordinates cast to integers), clamped on each axis into \<open>[0, shape - 1]\<close>.
\<close>

definition clamped_voxels :: "nat \<times> nat \<times> nat \<Rightarrow> vec3 list \<Rightarrow> voxel set" where
  "clamped_voxels shape ijk_points =
     (case shape of (sx, sy, sz) \<Rightarrow>
        (\<lambda>(x, y, z). (max 0 (min (int sx - 1) (astype_int x)), max 0 (min (int sy - 1) (astype_int y)),
                       max 0 (min (int sz - 1) (astype_int z)))) ` set ijk_points)"

text \<open>
  Auxiliary notions for the grids: a grid of a given shape, a cell inside a shape, and
  the cell of a voxel whose indices are not negative.
\<close>

definition well_shaped :: "nat \<times> nat \<times> nat \<Rightarrow> grid \<Rightarrow> bool" where
  "well_shaped shape g =
     (case shape of (sx, sy, sz) \<Rightarrow>
        length g = sx \<and> (\<forall>row \<in> set g. length row = sy \<and> (\<forall>line \<in> set row. length line = sz)))"

definition in_shape :: "nat \<times> nat \<times> nat \<Rightarrow> nat \<times> nat \<times> nat \<Rightarrow> bool" where
  "in_shape shape c = (case shape of (sx, sy, sz) \<Rightarrow> case c of (a, b, c) \<Rightarrow> a < sx \<and> b < sy \<and> c < sz)"

definition cell_of :: "voxel \<Rightarrow> nat \<times> nat \<times> nat" where
  "cell_of v = (case v of (i, j, k) \<Rightarrow> (nat i, nat j, nat k))"

subsection \<open>Smoothing\<close>

text \<open>
  \<^verbatim>\<open>
  def tract_smooth(tractography, var, file_output):
      from sklearn.neighbors import BallTree
      var = float(var)
      std = var ** 2
      points = tractography.original_tracts()
      all_points = numpy.vstack(points)
      bt = BallTree(all_points)
      N = len(all_points) / 3
      I = numpy.eye(3)[None, ...]
      for i, tract in enumerate(tractography.original_tracts()):
          diff = numpy.diff(tract, axis=0)
          diff = numpy.vstack((diff, diff[-1]))
          lengths = numpy.sqrt((diff ** 2).sum(1))
          diff_norm = diff / lengths[:, None]
          tangent_lines = diff_norm[:, None, :] * diff_norm[:, :, None]
          normal_planes = I - tangent_lines
          N = max(len(d) for d in bt.query_radius(tract, var * 3))
          close_point_distances, close_point_indices = bt.query(tract, N)
          close_points = all_points[close_point_indices]
          difference_vectors = close_points - tract[:, None, :]
          projected_vectors = (
              normal_planes[:, None, :] *
              difference_vectors[..., None]
          ).sum(-2)
          projected_points = projected_vectors + tract[:, None, :]
          weights = numpy.exp(
              -.5 * close_point_distances ** 2 / std
          )[..., None]
          weights /= weights.sum(-2)[..., None]
          weighted_points = (projected_points * weights).sum(1)
          tract[:] = weighted_points
      return Tractography(
          tractography.original_tracts(),
          tractography.original_tracts_data(),
          **tractography.extra_args
      )
  \<close>
  Vectors and the rows of the arrays.
\<close>

definition add_vec :: "vec3 \<Rightarrow> vec3 \<Rightarrow> vec3" where
  "add_vec a b = (case a of (x, y, z) \<Rightarrow> case b of (x', y', z') \<Rightarrow> (x + x', y + y', z + z'))"

definition sub_vec :: "vec3 \<Rightarrow> vec3 \<Rightarrow> vec3" where
  "sub_vec a b = (case a of (x, y, z) \<Rightarrow> case b of (x', y', z') \<Rightarrow> (x - x', y - y', z - z'))"

definition scale_vec :: "real \<Rightarrow> vec3 \<Rightarrow> vec3" where
  "scale_vec w a = (case a of (x, y, z) \<Rightarrow> (x * w, y * w, z * w))"

definition sum_vec :: "vec3 list \<Rightarrow> vec3" where
  "sum_vec vs = foldr add_vec vs (0, 0, 0)"

definition row_length :: "vec3 \<Rightarrow> real" where
  "row_length d = (case d of (x, y, z) \<Rightarrow> sqrt (x\<^sup>2 + y\<^sup>2 + z\<^sup>2))"

fun np_diff :: "vec3 list \<Rightarrow> vec3 list" where
  "np_diff (p # q # ps) = sub_vec q p # np_diff (q # ps)"
| "np_diff ps = []"

text \<open>
  A 3 by 3 matrix is the triple of its rows. Entry \<open>[a][b]\<close> of \<^verbatim>\<open>tangent_lines\<close> is
  \<open>t[b] * t[a]\<close>, and \<^verbatim>\<open>projected_vectors\<close> sums, over \<open>a\<close>, row \<open>a\<close> of the normal
  plane times entry \<open>a\<close> of the difference vector.
\<close>

type_synonym mat3 = "vec3 \<times> vec3 \<times> vec3"

definition tangent_line :: "vec3 \<Rightarrow> mat3" where
  "tangent_line t =
     (case t of (x, y, z) \<Rightarrow> ((x * x, y * x, z * x), (x * y, y * y, z * y), (x * z, y * z, z * z)))"

definition normal_plane :: "vec3 \<Rightarrow> mat3" where
  "normal_plane t =
     (case tangent_line t of (r0, r1, r2) \<Rightarrow>
        (sub_vec (1, 0, 0) r0, sub_vec (0, 1, 0) r1, sub_vec (0, 0, 1) r2))"

definition project :: "mat3 \<Rightarrow> vec3 \<Rightarrow> vec3" where
  "project P d =
     (case P of (r0, r1, r2) \<Rightarrow> case d of (d0, d1, d2) \<Rightarrow>
        sum_vec [scale_vec d0 r0, scale_vec d1 r1, scale_vec d2 r2])"

text \<open>
  The ball tree is scikit-learn's. \<^verbatim>\<open>query_radius\<close> gives, for a point, the indices of
  the points of the tree at a distance of at most \<open>r\<close>; \<^verbatim>\<open>query\<close> gives the distances and
  the indices of the \<open>k\<close> nearest points of the tree, the nearest first. Which points it
  returns among those at the same distance, and in which order, the library does not
  specify: \<open>tie p k i\<close> is the rank that the tree gives the point of index \<open>i\<close> among the
  points at the same distance from \<open>p\<close> in a query for \<open>k\<close> neighbours (the sort is
  stable, so that points of the same rank come by index). A radius below zero reaches no
  point, and the query for zero neighbours is taken to return none.
\<close>

definition distance :: "vec3 \<Rightarrow> vec3 \<Rightarrow> real" where
  "distance p q = row_length (sub_vec p q)"

definition query_radius :: "vec3 list \<Rightarrow> vec3 \<Rightarrow> real \<Rightarrow> nat list" where
  "query_radius all_points p r =
     filter (\<lambda>i. distance (all_points ! i) p \<le> r) [0..<length all_points]"

definition query ::
  "(vec3 \<Rightarrow> nat \<Rightarrow> nat \<Rightarrow> nat) \<Rightarrow> vec3 list \<Rightarrow> vec3 \<Rightarrow> nat \<Rightarrow> (real \<times> nat) list" where
  "query tie all_points p k =
     take k (sort_key fst (sort_key (\<lambda>c. tie p k (snd c))
       (zip (map (\<lambda>q. distance q p) all_points) [0..<length all_points])))"

text \<open>
  A row of an array that smoothing computes is a point, or \<open>None\<close> when its three
  entries are \<open>NaN\<close>; a weight is a number, or \<open>None\<close> when it is \<open>NaN\<close>. numpy does not raise on
  them: a product or a sum with a \<open>NaN\<close> is \<open>NaN\<close>.

  \<^verbatim>\<open>diff / lengths[:, None]\<close>: a row of \<^verbatim>\<open>diff\<close> of length zero is the zero vector, and
  \<open>0.0 / 0.0\<close> is \<open>NaN\<close>.
\<close>

type_synonym np_row = "vec3 option"

definition div_row :: "vec3 \<Rightarrow> real \<Rightarrow> np_row" where
  "div_row d l = (if l = 0 then None else Some (div_point d l))"

definition tangents :: "streamline \<Rightarrow> np_row list" where
  "tangents tract =
     (let diff = np_diff tract;
          diff = diff @ [last diff];
          lengths = map row_length diff;
          diff_norm = map2 div_row diff lengths
      in diff_norm)"

definition neighbor_count :: "vec3 list \<Rightarrow> real \<Rightarrow> streamline \<Rightarrow> nat" where
  "neighbor_count all_points var tract =
     Max (set (map (\<lambda>p. length (query_radius all_points p (var * 3))) tract))"

text \<open>
  The weights of the neighbours of one point, from their distances. A division by
  \<open>std = 0.0\<close> gives \<open>NaN\<close> for the distance zero and \<open>-inf\<close> for any other, so that the
  sum of the weights is \<open>NaN\<close> or zero and every weight is \<open>NaN\<close>.
\<close>

definition kernel_weights :: "real \<Rightarrow> real list \<Rightarrow> real option list" where
  "kernel_weights std close_point_distances =
     (if std = 0 then map (\<lambda>d. None) close_point_distances
      else
        let weights = map (\<lambda>d. exp (- (1 / 2) * d\<^sup>2 / std)) close_point_distances
        in map (\<lambda>w. Some (w / sum_list weights)) weights)"

text \<open>
  The projected candidates of the point \<open>p\<close> of a streamline, with \<open>t\<close> its row of
  \<^verbatim>\<open>diff_norm\<close> and \<open>close\<close> the answer of the query; their products with the weights;
  and the sum of these, the new position of the point. The sum of no rows is the zero
  vector.
\<close>

definition projected_points :: "vec3 list \<Rightarrow> (real \<times> nat) list \<Rightarrow> np_row \<Rightarrow> vec3 \<Rightarrow> np_row list" where
  "projected_points all_points close t p =
     (let close_point_indices = map snd close;
          close_points = map (\<lambda>i. all_points ! i) close_point_indices;
          difference_vectors = map (\<lambda>q. sub_vec q p) close_points
      in case t of
           None \<Rightarrow> map (\<lambda>v. None) difference_vectors
         | Some t \<Rightarrow> map (\<lambda>v. Some (add_vec (project (normal_plane t) v) p)) difference_vectors)"

fun mul_row :: "np_row \<Rightarrow> real option \<Rightarrow> np_row" where
  "mul_row (Some q) (Some w) = Some (scale_vec w q)"
| "mul_row q w = None"

fun add_row :: "np_row \<Rightarrow> np_row \<Rightarrow> np_row" where
  "add_row (Some q) (Some r) = Some (add_vec q r)"
| "add_row q r = None"

definition sum_rows :: "np_row list \<Rightarrow> np_row" where
  "sum_rows rows = foldr add_row rows (Some (0, 0, 0))"

definition smooth_point ::
  "(vec3 \<Rightarrow> nat \<Rightarrow> nat \<Rightarrow> nat) \<Rightarrow> vec3 list \<Rightarrow> real \<Rightarrow> nat \<Rightarrow> np_row \<Rightarrow> vec3 \<Rightarrow> np_row" where
  "smooth_point tie all_points std N t p =
     (let close = query tie all_points p N;
          close_point_distances = map fst close;
          weights = kernel_weights std close_point_distances
      in sum_rows (map2 mul_row (projected_points all_points close t p) weights))"

text \<open>
  The body of the loop, up to the assignment: the new rows of one streamline of at
  least two points.
\<close>

definition weighted_points ::
  "(vec3 \<Rightarrow> nat \<Rightarrow> nat \<Rightarrow> nat) \<Rightarrow> vec3 list \<Rightarrow> real \<Rightarrow> real \<Rightarrow> streamline \<Rightarrow> np_row list" where
  "weighted_points tie all_points var std tract =
     (let diff_norm = tangents tract;
          N = neighbor_count all_points var tract
      in map2 (smooth_point tie all_points std N) diff_norm tract)"

text \<open>
  The streamlines of a tractography are numpy arrays, and \<^verbatim>\<open>original_tracts()\<close> gives
  the list of them: here a list of addresses into a store of arrays. The arrays of the
  input hold points; the assignment \<^verbatim>\<open>tract[:] = weighted_points\<close> writes the new rows,
  \<open>NaN\<close> rows among them, into the array at the address, and the loop goes on. The array
  of all points was copied by \<^verbatim>\<open>numpy.vstack\<close> before the loop, and the ball tree holds
  that copy; scikit-learn's \<^verbatim>\<open>BallTree\<close> raises \<open>ValueError\<close> on an array without rows.
  \<^verbatim>\<open>diff[-1]\<close> raises \<open>IndexError\<close> for a streamline with fewer than two points. An
  array that holds a \<open>NaN\<close> row when its turn comes (it was listed before, and written)
  is refused by the input check of \<^verbatim>\<open>query_radius\<close> with \<open>ValueError\<close>. The first
  assignment to \<open>N\<close> is never read. An operation returns its outcome and the store it
  leaves.
\<close>

type_synonym fstore = "nat \<Rightarrow> streamline"

type_synonym store = "nat \<Rightarrow> np_row list"

definition embed :: "fstore \<Rightarrow> store" where
  "embed h = (\<lambda>a. map Some (h a))"

definition finite_rows :: "np_row list \<Rightarrow> streamline option" where
  "finite_rows rows = (if None \<in> set rows then None else Some (map the rows))"

definition smooth_tract ::
  "(vec3 \<Rightarrow> nat \<Rightarrow> nat \<Rightarrow> nat) \<Rightarrow> vec3 list \<Rightarrow> real \<Rightarrow> real \<Rightarrow> np_row list \<Rightarrow> np_row list outcome" where
  "smooth_tract tie all_points var std rows =
     (if length rows < 2 then Raises IndexError
      else case finite_rows rows of
             None \<Rightarrow> Raises ValueError
           | Some tract \<Rightarrow> Returns (weighted_points tie all_points var std tract))"

fun smooth_loop ::
  "(vec3 \<Rightarrow> nat \<Rightarrow> nat \<Rightarrow> nat) \<Rightarrow> vec3 list \<Rightarrow> real \<Rightarrow> real \<Rightarrow> nat list \<Rightarrow> store \<Rightarrow> unit outcome \<times> store" where
  "smooth_loop tie all_points var std [] h = (Returns (), h)"
| "smooth_loop tie all_points var std (tract # tracts) h =
     (case smooth_tract tie all_points var std (h tract) of
        Raises e \<Rightarrow> (Raises e, h)
      | Nonfinite \<Rightarrow> (Nonfinite, h)
      | Returns weighted \<Rightarrow> smooth_loop tie all_points var std tracts (h(tract := weighted)))"

definition tract_smooth ::
  "(vec3 \<Rightarrow> nat \<Rightarrow> nat \<Rightarrow> nat) \<Rightarrow> nat list \<Rightarrow> real \<Rightarrow> fstore \<Rightarrow> nat list outcome \<times> store" where
  "tract_smooth tie tractography var h =
     (let std = var ^ 2;
          points = map h tractography
      in case vstack points of
           Raises e \<Rightarrow> (Raises e, embed h)
         | Nonfinite \<Rightarrow> (Nonfinite, embed h)
         | Returns all_points \<Rightarrow>
             if all_points = [] then (Raises ValueError, embed h)
             else
               (case smooth_loop tie all_points var std tractography (embed h) of
                  (Raises e, h') \<Rightarrow> (Raises e, h')
                | (Nonfinite, h') \<Rightarrow> (Nonfinite, h')
                | (Returns u, h') \<Rightarrow> (Returns tractography, h')))"

text \<open>
  The other operations read the arrays of their tractographies and write only into
  arrays they make themselves: \<^verbatim>\<open>voxelized_tract\<close> divides the copy that \<^verbatim>\<open>numpy.vstack\<close>
  returns, the rasterizers assign into the grid that \<^verbatim>\<open>numpy.zeros_like\<close> returns, and the
  tractographies that kappa, Dice and the Bhattacharyya coefficient compare with are
  loaded from their files by the operation. On the store they are the following.
\<close>

definition tracts_of :: "fstore \<Rightarrow> nat list \<Rightarrow> streamline list" where
  "tracts_of h tractography = map h tractography"

definition voxelized_tract_on :: "nat list \<Rightarrow> real \<Rightarrow> fstore \<Rightarrow> voxel set outcome \<times> fstore" where
  "voxelized_tract_on tractography resolution h =
     (voxelized_tract (tracts_of h tractography) resolution, h)"

definition tract_volume_on :: "nat list \<Rightarrow> real \<Rightarrow> fstore \<Rightarrow> real outcome \<times> fstore" where
  "tract_volume_on tractography resolution h =
     (tract_volume (tracts_of h tractography) resolution, h)"

definition tract_kappa_on ::
  "nat list \<Rightarrow> real \<Rightarrow> streamline list list \<Rightarrow> fstore \<Rightarrow> real option list outcome \<times> fstore" where
  "tract_kappa_on tractography resolution other_tracts h =
     (tract_kappa (tracts_of h tractography) resolution other_tracts, h)"

definition tract_dice_on ::
  "nat list \<Rightarrow> real \<Rightarrow> streamline list list \<Rightarrow> fstore \<Rightarrow> real list outcome \<times> fstore" where
  "tract_dice_on tractography resolution other_tracts h =
     (tract_dice (tracts_of h tractography) resolution other_tracts, h)"

definition bhattacharyya_range_on ::
  "nat list \<Rightarrow> streamline list list \<Rightarrow> fstore \<Rightarrow> (vec3 \<times> vec3) outcome \<times> fstore" where
  "bhattacharyya_range_on tractography other_tracts h =
     (bhattacharyya_range (tracts_of h tractography) other_tracts, h)"

definition tract_mask_on :: "image \<Rightarrow> nat list \<Rightarrow> fstore \<Rightarrow> grid outcome \<times> fstore" where
  "tract_mask_on img tractography h = (tract_mask img (tracts_of h tractography), h)"

definition tract_probability_map_on :: "image \<Rightarrow> nat list \<Rightarrow> fstore \<Rightarrow> grid outcome \<times> fstore" where
  "tract_probability_map_on img tractography h =
     (tract_probability_map img (tracts_of h tractography), h)"

definition tract_generate_probability_map_on ::
  "nat list list \<Rightarrow> image \<Rightarrow> fstore \<Rightarrow> grid outcome \<times> fstore" where
  "tract_generate_probability_map_on tractographies img h =
     (tract_generate_probability_map (map (tracts_of h) tractographies) img, h)"

text \<open>
  The weights of the specification, \<open>exp (- d\<^sup>2 / (2 varianceParameter))\<close> divided by
  their sum, and the position they give a point: the sum of its projected candidates,
  each times the weight of its neighbour.
\<close>

definition spec_weights :: "real \<Rightarrow> real list \<Rightarrow> real list" where
  "spec_weights varianceParameter ds =
     map (\<lambda>d. exp (- d\<^sup>2 / (2 * varianceParameter))
                / (\<Sum>d' \<leftarrow> ds. exp (- d'\<^sup>2 / (2 * varianceParameter)))) ds"

definition spec_smooth_point ::
  "(vec3 \<Rightarrow> nat \<Rightarrow> nat \<Rightarrow> nat) \<Rightarrow> vec3 list \<Rightarrow> real \<Rightarrow> nat \<Rightarrow> np_row \<Rightarrow> vec3 \<Rightarrow> np_row" where
  "spec_smooth_point tie all_points varianceParameter k t p =
     (let close = query tie all_points p k
      in sum_rows (map2 mul_row (projected_points all_points close t p)
           (map Some (spec_weights varianceParameter (map fst close)))))"

section \<open>Properties\<close>

subsection \<open>Cohen's kappa\<close>

text \<open>
  The arithmetic of \<open>int64\<close>: a product of wrapped factors wraps to the same value as the
  product of the factors, so that the \<open>N\<close> of the code is the wrapped product of the three
  extents; and as long as \<open>N * N\<close> stays below \<open>2\<^sup>6\<^sup>3\<close>, nothing wraps and the code
  computes the kappa value of the formula.
\<close>

lemma int64_mod: "int64 n mod 2 ^ 64 = n mod 2 ^ 64"
proof -
  have "int64 n mod 2 ^ 64 = ((n + 2 ^ 63) mod 2 ^ 64 - 2 ^ 63) mod 2 ^ 64"
    by (simp only: int64_def)
  also have "\<dots> = (n + 2 ^ 63 - 2 ^ 63) mod 2 ^ 64"
    by (rule mod_diff_left_eq)
  finally show ?thesis by simp
qed

lemma int64_cong: "a mod 2 ^ 64 = b mod 2 ^ 64 \<Longrightarrow> int64 a = int64 b"
  unfolding int64_def by (metis mod_add_left_eq)

lemma int64_id: "- (2 ^ 63) \<le> n \<Longrightarrow> n < 2 ^ 63 \<Longrightarrow> int64 n = n"
  by (simp add: int64_def)

lemma int64_prod3: "int64 (int64 (int64 a * int64 b) * int64 c) = int64 (a * b * c)"
proof (rule int64_cong)
  have ab: "int64 (int64 a * int64 b) mod 2 ^ 64 = (a * b) mod 2 ^ 64"
    unfolding int64_mod by (rule mod_mult_cong) (rule int64_mod)+
  show "int64 (int64 a * int64 b) * int64 c mod 2 ^ 64 = a * b * c mod 2 ^ 64"
    by (rule mod_mult_cong) (rule ab, rule int64_mod)
qed

lemma prod_sub_voxel:
  "prod_voxel (sub_voxel (column_max S) (column_min S)) = int64 (bounding_box_N S)"
  by (simp only: prod_voxel_def sub_voxel_def column_max_def column_min_def bounding_box_N_def
      axis_extent_def prod.case int64_prod3)

lemma axis_extent_nonneg:
  assumes "finite S" and "S \<noteq> {}"
  shows "0 \<le> axis_extent axis S"
proof -
  obtain x where "x \<in> S" using assms(2) by blast
  then have "Min (axis ` S) \<le> axis x" "axis x \<le> Max (axis ` S)"
    using assms(1) by simp_all
  then show ?thesis by (simp add: axis_extent_def)
qed

lemma kappa_value_in_range:
  assumes "finite A" and "finite B" and "A \<union> B \<noteq> {}"
    and "bounding_box_N (A \<union> B) * bounding_box_N (A \<union> B) < 2 ^ 63"
  shows "kappa_value A B =
           (if bounding_box_N (A \<union> B) = 0 \<or> spec_chance A B = 1 then Returns None
            else Returns (Some ((spec_observed A B - spec_chance A B) / (1 - spec_chance A B))))"
proof -
  let ?N = "bounding_box_N (A \<union> B)"
  have fin: "finite (A \<union> B)" using assms(1,2) by simp
  have N0: "0 \<le> ?N"
    unfolding bounding_box_N_def
    using axis_extent_nonneg [OF fin assms(3)] by simp
  have NN0: "0 \<le> ?N * ?N" by simp
  have "?N \<le> ?N * ?N" using N0 by (cases "?N = 0") (simp_all add: mult_le_cancel_left1)
  then have N: "int64 ?N = ?N" using N0 assms(4) by (intro int64_id) linarith+
  have NN: "int64 (?N * ?N) = ?N * ?N" using NN0 assms(4) by (intro int64_id) linarith+
  have sq: "real_of_int (?N * ?N) = (real_of_int ?N)\<^sup>2"
    by (simp add: power2_eq_square)
  show ?thesis
    using assms(3)
    unfolding kappa_value_def Let_def prod_sub_voxel N NN sq
    by (auto simp: spec_chance_def spec_observed_def spec_nn_def)
qed

text \<open>
  Claim C1, against the code. The kappa value of two voxel sets is specified as
  \<open>(observed - chance) / (1 - chance)\<close> with \<open>N\<close> the product of the extents of the
  bounding box of \<open>A \<union> B\<close>, \<open>pp = |A \<inter> B|\<close>, \<open>pn = |A - B|\<close>, \<open>np = |B - A|\<close>,
  \<open>nn = N - pp - pn - np\<close>, \<open>observed = (pp + nn) / N\<close> and
  \<open>chance = ((pp + pn) (pp + np) + (nn + np) (nn + pn)) / N\<^sup>2\<close>. In the code \<open>N\<close> is a
  numpy \<open>int64\<close>, and \<open>N * N\<close> wraps around. The streamline from \<open>(0, 0, 0)\<close> to
  \<open>(1500, 1500, 1500)\<close>, compared at resolution 1 with the single point \<open>(0, 0, 0)\<close>, has
  \<open>N = 1500\<^sup>3 = 3375000000\<close>; \<open>N * N\<close> wraps to \<open>-7056119073709551616\<close>, and
  \<^verbatim>\<open>tract_kappa\<close> returns a kappa value of about \<open>0.99999999989\<close>, where the formula gives
  \<open>1687499999 / 2531249999\<close>, about \<open>0.6667\<close>.
\<close>

theorem kappa_int64_overflow:
  "tract_kappa [[(0, 0, 0), (1500, 1500, 1500)]] 1 [[[(0, 0, 0)]]]
     = Returns [Some (243194379716959932202306439 / 243194379744522897333984375)]
   \<and> kappa_value {(0, 0, 0), (1500, 1500, 1500)} {(0, 0, 0)}
     = Returns (Some (243194379716959932202306439 / 243194379744522897333984375))
   \<and> bounding_box_N ({(0, 0, 0), (1500, 1500, 1500)} \<union> {(0, 0, 0)}) = 3375000000
   \<and> int64 (3375000000 * 3375000000) = - 7056119073709551616
   \<and> (spec_observed {(0, 0, 0), (1500, 1500, 1500)} {(0, 0, 0)}
        - spec_chance {(0, 0, 0), (1500, 1500, 1500)} {(0, 0, 0)})
       / (1 - spec_chance {(0, 0, 0), (1500, 1500, 1500)} {(0, 0, 0)})
     = 1687499999 / 2531249999"
  by code_simp

subsection \<open>Dice coefficient\<close>

text \<open>
  Claim C6, as the code has it. For two voxel sets \<open>A\<close> and \<open>B\<close> that are not both empty
  the Dice coefficient is \<open>2 |A \<inter> B| / (|A| + |B|)\<close>; when both are empty the division
  raises \<open>ZeroDivisionError\<close>.
\<close>

theorem dice_coefficient_formula:
  assumes "finite A" and "finite B"
  shows "dice_coefficient A B =
           (if A = {} \<and> B = {} then Raises ZeroDivisionError
            else Returns (2 * real (card (A \<inter> B)) / (real (card A) + real (card B))))"
  using assms by (auto simp: dice_coefficient_def)

theorem dice_coefficient_formula_witness:
  "finite ({(0, 0, 0), (1, 0, 0)} :: voxel set) \<and> finite ({(1, 0, 0)} :: voxel set)
   \<and> dice_coefficient {(0, 0, 0), (1, 0, 0)} {(1, 0, 0)} = Returns (2 / 3)"
  using dice_coefficient_formula [of "{(0, 0, 0), (1, 0, 0)}" "{(1, 0, 0)}"] by simp

text \<open>
  Two empty voxel sets, as two tractographies whose streamlines have no points give them:
  the operation raises instead of returning a \<open>NaN\<close>.
\<close>

theorem dice_empty_counterexample:
  "dice_coefficient {} {} = Raises ZeroDivisionError
   \<and> tract_dice [[]] 1 [[[]]] = Raises ZeroDivisionError"
  by (simp add: dice_coefficient_def tract_dice_def voxelized_tract_def vstack_def)

subsection \<open>Volume estimate\<close>

lemma card_dilated_single: "card (dilated_voxels {v}) = 7"
proof -
  obtain i j k where v: "v = (i, j, k)" by (cases v) auto
  have "dilated_voxels {v} =
          {(i, j, k), (i, 1 + j, k), (i, - 1 + j, k), (1 + i, j, k), (- 1 + i, j, k),
           (i, j, 1 + k), (i, j, - 1 + k)}"
    unfolding dilated_voxels_def neighbors_list_def neighbors_def add_voxel_def v by auto
  then show ?thesis by simp
qed

lemma eroded_single: "eroded_voxels {v} = {}"
proof -
  have "card ({v} \<inter> set (neighbors_list v)) \<le> card {v}"
    by (rule card_mono) auto
  then have "card ({v} \<inter> set (neighbors_list v)) \<noteq> 6" by simp
  then show ?thesis unfolding eroded_voxels_def neighbors_def by auto
qed

text \<open>
  Claim C8. For every resolution \<open>r > 0\<close>, a voxel set with exactly one voxel has a dilated
  set of 7 voxels and an empty eroded set, and its volume estimate is \<open>3.5 r\<^sup>3\<close>; so is
  the result of \<^verbatim>\<open>tract_volume\<close> on a tractography that occupies one voxel.
\<close>

theorem single_voxel_volume:
  assumes "0 < r"
  shows "card (dilated_voxels {v}) = 7 \<and> card (eroded_voxels {v}) = 0
         \<and> volume_of_voxels {v} r = 7 / 2 * r ^ 3
         \<and> (voxelized_tract tracts r = Returns {v}
              \<longrightarrow> tract_volume tracts r = Returns (7 / 2 * r ^ 3))"
  by (simp add: card_dilated_single eroded_single volume_of_voxels_def tract_volume_def)

theorem single_voxel_volume_witness:
  "(0 :: real) < 2 \<and> card (dilated_voxels {(0, 0, 0)}) = 7 \<and> card (eroded_voxels {(0, 0, 0)}) = 0
   \<and> volume_of_voxels {(0, 0, 0)} 2 = 28
   \<and> voxelized_tract [[(0, 0, 0), (1 / 2, 0, 0)]] 2 = Returns {(0, 0, 0)}
   \<and> tract_volume [[(0, 0, 0), (1 / 2, 0, 0)]] 2 = Returns 28"
proof -
  have v: "voxelized_tract [[(0, 0, 0), (1 / 2, 0, 0)]] 2 = Returns {(0, 0, 0)}" by code_simp
  show ?thesis
    using single_voxel_volume [of 2 "(0, 0, 0)" "[[(0, 0, 0), (1 / 2, 0, 0)]]"] v by simp
qed

subsection \<open>Resolution of the voxelizer\<close>

text \<open>
  Claim C5, as the code has it. The voxelizer does not check the resolution, and no
  operation raises an error for a resolution that is not above zero. For a non-empty list
  of streamlines and a resolution below zero, the voxelizer returns the set of the rounded
  quotients of its points; at resolution zero every quotient is \<open>inf\<close> or \<open>NaN\<close>, whose cast
  to \<open>int64\<close> is the smallest \<open>int64\<close>, so that it returns the one voxel with these three
  indices. The volume estimate, the kappa value and the Dice coefficient go on with the
  voxel set that the voxelizer returned.
\<close>

theorem voxelized_tract_nonpositive_resolution:
  assumes "resolution \<le> 0" and "tracts \<noteq> []"
  shows "voxelized_tract tracts resolution = Returns (voxel_of_point resolution ` set (concat tracts))
         \<and> (resolution < 0 \<longrightarrow> (\<forall>p. voxel_of_point resolution p
               = (case round_point (div_point p resolution) of
                    (i, j, k) \<Rightarrow> (cast_int64 i, cast_int64 j, cast_int64 k))))
         \<and> (resolution = 0 \<longrightarrow> (\<forall>p. voxel_of_point resolution p = (int64_min, int64_min, int64_min)))
         \<and> tract_volume tracts resolution
             = Returns (volume_of_voxels (voxel_of_point resolution ` set (concat tracts)) resolution)
         \<and> tract_kappa tracts resolution other_tracts
             = kappa_rows (voxel_of_point resolution ` set (concat tracts)) resolution other_tracts
         \<and> tract_dice tracts resolution other_tracts
             = dice_rows (voxel_of_point resolution ` set (concat tracts)) resolution other_tracts"
  using assms
  by (simp add: voxelized_tract_def vstack_def voxel_of_point_def tract_volume_def tract_kappa_def
      tract_dice_def)

theorem voxelized_tract_nonpositive_resolution_witness:
  "(- 1 :: real) \<le> 0 \<and> [[(1, 2, 3)]] \<noteq> ([] :: streamline list) \<and> (- 1 :: real) < 0
   \<and> voxelized_tract [[(1, 2, 3)]] (- 1) = Returns {(- 1, - 2, - 3)}
   \<and> tract_volume [[(1, 2, 3)]] (- 1) = Returns (- (7 / 2))
   \<and> tract_kappa [[(1, 2, 3)]] (- 1) [[[(1, 2, 3), (3, 4, 5)]]] = Returns [Some (3 / 5)]
   \<and> tract_dice [[(1, 2, 3)]] (- 1) [[[(1, 2, 3), (3, 4, 5)]]] = Returns [2 / 3]
   \<and> (0 :: real) \<le> 0 \<and> voxelized_tract [[(1, 2, 3)]] 0 = Returns {(int64_min, int64_min, int64_min)}
   \<and> tract_volume [[(1, 2, 3)]] 0 = Returns 0"
proof -
  have v: "voxel_of_point (- 1) ` set (concat [[(1, 2, 3)]]) = {(- 1, - 2, - 3)}" by code_simp
  have v0: "voxel_of_point 0 ` set (concat [[(1, 2, 3)]]) = {(int64_min, int64_min, int64_min)}"
    by (simp add: voxel_of_point_def)
  have vol: "volume_of_voxels {(- 1, - 2, - 3)} (- 1) = - (7 / 2)" by code_simp
  have vol0: "volume_of_voxels {(int64_min, int64_min, int64_min)} 0 = 0"
    by (simp add: volume_of_voxels_def)
  have k: "kappa_rows {(- 1, - 2, - 3)} (- 1) [[[(1, 2, 3), (3, 4, 5)]]] = Returns [Some (3 / 5)]"
    by code_simp
  have d: "dice_rows {(- 1, - 2, - 3)} (- 1) [[[(1, 2, 3), (3, 4, 5)]]] = Returns [2 / 3]"
    by code_simp
  show ?thesis
    using voxelized_tract_nonpositive_resolution [of "- 1" "[[(1, 2, 3)]]" "[[[(1, 2, 3), (3, 4, 5)]]]"]
      voxelized_tract_nonpositive_resolution [of 0 "[[(1, 2, 3)]]" "[]"]
    unfolding v v0 vol vol0 k d by simp
qed

text \<open>
  At resolution \<open>-2\<close> the voxelizer, the volume estimate and the Dice coefficient all
  return values.
\<close>

theorem negative_resolution_counterexample:
  "voxelized_tract [[(0, 0, 0), (3, 0, 0)]] (- 2) = Returns {(0, 0, 0), (- 2, 0, 0)}
   \<and> tract_volume [[(0, 0, 0), (3, 0, 0)]] (- 2) = Returns (- 52)
   \<and> tract_dice [[(0, 0, 0), (3, 0, 0)]] (- 2) [[[(0, 0, 0)]]] = Returns [2 / 3]"
  by code_simp

subsection \<open>Mask rasterizer\<close>

lemma well_shaped_zeros: "well_shaped shape (zeros shape)"
  by (auto simp: well_shaped_def zeros_def split: prod.splits)

lemma get_cell_zeros: "in_shape shape c \<Longrightarrow> get_cell (zeros shape) c = 0"
  by (auto simp: in_shape_def get_cell_def zeros_def split: prod.splits)

lemma well_shaped_set_cell:
  assumes "well_shaped shape g" and "in_shape shape c"
  shows "well_shaped shape (set_cell g c v)"
proof -
  obtain sx sy sz where s: "shape = (sx, sy, sz)" by (cases shape) auto
  obtain a b d where c: "c = (a, b, d)" by (cases c) auto
  have lg: "length g = sx" using assms(1) by (simp add: well_shaped_def s)
  have a: "a < sx" "b < sy" "d < sz"
    using assms(2) by (auto simp: in_shape_def s c)
  have ga: "g ! a \<in> set g" using lg a by simp
  have la: "length (g ! a) = sy" and lines: "\<forall>line \<in> set (g ! a). length line = sz"
    using assms(1) ga by (auto simp: well_shaped_def s)
  have gab: "g ! a ! b \<in> set (g ! a)" using la a by simp
  have new_row: "\<forall>line \<in> set ((g ! a)[b := (g ! a ! b)[d := v]]). length line = sz"
  proof
    fix line assume "line \<in> set ((g ! a)[b := (g ! a ! b)[d := v]])"
    then have "line \<in> insert ((g ! a ! b)[d := v]) (set (g ! a))"
      using set_update_subset_insert by fastforce
    then show "length line = sz" using lines gab by auto
  qed
  have "\<forall>row \<in> set (g[a := (g ! a)[b := (g ! a ! b)[d := v]]]).
          length row = sy \<and> (\<forall>line \<in> set row. length line = sz)"
  proof
    fix row assume "row \<in> set (g[a := (g ! a)[b := (g ! a ! b)[d := v]]])"
    then have "row \<in> insert ((g ! a)[b := (g ! a ! b)[d := v]]) (set g)"
      using set_update_subset_insert by fastforce
    then consider "row = (g ! a)[b := (g ! a ! b)[d := v]]" | "row \<in> set g" by auto
    then show "length row = sy \<and> (\<forall>line \<in> set row. length line = sz)"
    proof cases
      case 1
      then show ?thesis using new_row la by simp
    next
      case 2
      then show ?thesis using assms(1) by (auto simp: well_shaped_def s)
    qed
  qed
  then show ?thesis using lg by (simp add: well_shaped_def s set_cell_def c)
qed

lemma get_cell_set_cell:
  assumes "well_shaped shape g" and "in_shape shape c" and "in_shape shape c'"
  shows "get_cell (set_cell g c v) c' = (if c' = c then v else get_cell g c')"
proof -
  obtain sx sy sz where s: "shape = (sx, sy, sz)" by (cases shape) auto
  obtain a b d where c: "c = (a, b, d)" by (cases c) auto
  obtain a' b' d' where c': "c' = (a', b', d')" by (cases c') auto
  have lg: "length g = sx" using assms(1) by (simp add: well_shaped_def s)
  have a: "a < sx" "b < sy" "d < sz" "a' < sx" "b' < sy" "d' < sz"
    using assms(2,3) by (auto simp: in_shape_def s c c')
  have lr: "length (g ! a) = sy" and lr': "length (g ! a') = sy"
    using assms(1) a lg by (auto simp: well_shaped_def s)
  have "g ! a ! b \<in> set (g ! a)" using lr a by simp
  moreover have "g ! a \<in> set g" using lg a by simp
  ultimately have ll: "length (g ! a ! b) = sz"
    using assms(1) by (auto simp: well_shaped_def s)
  show ?thesis
    using a lg lr lr' ll
    by (auto simp: get_cell_def set_cell_def c c' nth_list_update)
qed

lemma fold_set_cell:
  assumes "well_shaped shape g" and "\<forall>c \<in> set cells. in_shape shape c" and "in_shape shape c'"
  shows "well_shaped shape (fold (\<lambda>c m. set_cell m c v) cells g)
         \<and> get_cell (fold (\<lambda>c m. set_cell m c v) cells g) c'
             = (if c' \<in> set cells then v else get_cell g c')"
  using assms
proof (induction cells arbitrary: g)
  case Nil
  then show ?case by simp
next
  case (Cons c cells)
  have ws: "well_shaped shape (set_cell g c v)"
    using Cons.prems(1,2) by (intro well_shaped_set_cell) auto
  have "get_cell (set_cell g c v) c' = (if c' = c then v else get_cell g c')"
    using Cons.prems by (intro get_cell_set_cell) auto
  then show ?case
    using Cons.IH [OF ws] Cons.prems(2,3) by auto
qed

lemma astype_int_clip:
  assumes "0 < n"
  shows "astype_int (clip x 0 (int n - 1)) = max 0 (min (int n - 1) (astype_int x))"
    and "0 \<le> astype_int (clip x 0 (int n - 1))"
    and "astype_int (clip x 0 (int n - 1)) < int n"
proof -
  have n: "(0::real) \<le> real n - 1" "0 \<le> int n - 1" using assms by simp_all
  have fl: "\<lfloor>real n - 1\<rfloor> = int n - 1"
    by (metis floor_of_int of_int_1 of_int_diff of_int_of_nat_eq)
  consider "x < 0" | "0 \<le> x" "x \<le> real n - 1" | "real n - 1 < x" by linarith
  then show "astype_int (clip x 0 (int n - 1)) = max 0 (min (int n - 1) (astype_int x))"
  proof cases
    case 1
    then have c: "\<lceil>x\<rceil> \<le> 0" by (simp add: ceiling_le_iff)
    have "astype_int x = \<lceil>x\<rceil>" using 1 by (simp add: astype_int_def)
    then have rhs: "max 0 (min (int n - 1) (astype_int x)) = 0"
      using c n by linarith
    have "clip x 0 (int n - 1) = 0" using 1 n by (simp add: clip_def)
    then show ?thesis using rhs by (simp add: astype_int_def)
  next
    case 2
    then have f: "0 \<le> \<lfloor>x\<rfloor>" "\<lfloor>x\<rfloor> \<le> int n - 1"
      using fl floor_mono [of x "real n - 1"] by auto
    have ax: "astype_int x = \<lfloor>x\<rfloor>" using 2 by (simp add: astype_int_def)
    have rhs: "max 0 (min (int n - 1) (astype_int x)) = \<lfloor>x\<rfloor>"
      unfolding ax using f by linarith
    have "clip x 0 (int n - 1) = x" using 2 by (simp add: clip_def)
    then show ?thesis using rhs 2 by (simp add: astype_int_def)
  next
    case 3
    then have "0 \<le> x" using n by linarith
    then have ax: "astype_int x = \<lfloor>x\<rfloor>" by (simp add: astype_int_def)
    have "int n - 1 \<le> \<lfloor>x\<rfloor>" using fl floor_mono [of "real n - 1" x] 3 by simp
    then have rhs: "max 0 (min (int n - 1) (astype_int x)) = int n - 1"
      unfolding ax using n by linarith
    have "clip x 0 (int n - 1) = real n - 1" using 3 n by (simp add: clip_def)
    then show ?thesis using rhs n fl by (simp add: astype_int_def)
  qed
  then show "0 \<le> astype_int (clip x 0 (int n - 1))"
    and "astype_int (clip x 0 (int n - 1)) < int n"
    using assms by auto
qed

lemma np_index_nonneg: "0 \<le> i \<Longrightarrow> i < int n \<Longrightarrow> np_index n i = Some (nat i)"
  by (simp add: np_index_def)

lemma cell_index_ijk_clipped:
  assumes "0 < sx" and "0 < sy" and "0 < sz"
  shows "cell_index (sx, sy, sz) (ijk_clipped (sx, sy, sz) p) = Some (cell_of (ijk_clipped (sx, sy, sz) p))"
    and "in_shape (sx, sy, sz) (cell_of (ijk_clipped (sx, sy, sz) p))"
    and "ijk_clipped (sx, sy, sz) p = (case cell_of (ijk_clipped (sx, sy, sz) p) of (a, b, c) \<Rightarrow> (int a, int b, int c))"
proof -
  obtain x y z where p: "p = (x, y, z)" by (cases p) auto
  note bx = astype_int_clip(2,3) [OF assms(1), of x]
  note by' = astype_int_clip(2,3) [OF assms(2), of y]
  note bz = astype_int_clip(2,3) [OF assms(3), of z]
  show "cell_index (sx, sy, sz) (ijk_clipped (sx, sy, sz) p) = Some (cell_of (ijk_clipped (sx, sy, sz) p))"
    by (simp add: cell_index_def ijk_clipped_def p cell_of_def
        np_index_nonneg [OF bx] np_index_nonneg [OF by'] np_index_nonneg [OF bz])
  show "in_shape (sx, sy, sz) (cell_of (ijk_clipped (sx, sy, sz) p))"
    using bx by' bz by (simp add: in_shape_def ijk_clipped_def p cell_of_def nat_less_iff)
  show "ijk_clipped (sx, sy, sz) p = (case cell_of (ijk_clipped (sx, sy, sz) p) of (a, b, c) \<Rightarrow> (int a, int b, int c))"
    using bx by' bz by (simp add: ijk_clipped_def p cell_of_def)
qed

lemma cell_indices_ijk_clipped:
  assumes "0 < sx" and "0 < sy" and "0 < sz"
  shows "cell_indices (sx, sy, sz) (map (ijk_clipped (sx, sy, sz)) pts)
           = Returns (map (\<lambda>p. cell_of (ijk_clipped (sx, sy, sz) p)) pts)"
  by (induction pts) (simp_all add: cell_index_ijk_clipped(1) [OF assms])

lemma ijk_clipped_clamped:
  assumes "0 < sx" and "0 < sy" and "0 < sz"
  shows "ijk_clipped (sx, sy, sz) ` set pts = clamped_voxels (sx, sy, sz) pts"
proof -
  have "ijk_clipped (sx, sy, sz) p =
          (case p of (x, y, z) \<Rightarrow> (max 0 (min (int sx - 1) (astype_int x)),
             max 0 (min (int sy - 1) (astype_int y)), max 0 (min (int sz - 1) (astype_int z))))" for p
    by (simp add: ijk_clipped_def astype_int_clip(1) assms split: prod.splits)
  then show ?thesis unfolding clamped_voxels_def by (auto simp: image_iff)
qed

lemma tract_mask_regular:
  assumes "tractography \<noteq> []" and "ras_to_ijk img = Some solve"
    and "image_shape img = (sx, sy, sz)" and "0 < sx" and "0 < sy" and "0 < sz"
  shows "\<exists>mask. tract_mask img tractography = Returns mask
           \<and> length mask = sx
           \<and> (\<forall>a < sx. length (mask ! a) = sy
                 \<and> (\<forall>b < sy. length (mask ! a ! b) = sz
                       \<and> (\<forall>c < sz. mask ! a ! b ! c =
                             (if (int a, int b, int c)
                                  \<in> clamped_voxels (sx, sy, sz) (map solve (concat tractography))
                              then 1 else 0))))"
proof -
  let ?shape = "(sx, sy, sz)"
  let ?pts = "map solve (concat tractography)"
  let ?cells = "map (\<lambda>p. cell_of (ijk_clipped ?shape p)) ?pts"
  let ?mask = "fold (\<lambda>c m. set_cell m c 1) ?cells (zeros ?shape)"
  have pos: "0 < sx" "0 < sy" "0 < sz" by fact+
  have run: "tract_mask img tractography = Returns ?mask"
    using assms(1,2,3)
    by (simp add: tract_mask_def tract_in_ijk_def vstack_def cell_indices_ijk_clipped [OF pos])
  have cells: "\<forall>c \<in> set ?cells. in_shape ?shape c"
    using cell_index_ijk_clipped(2) [OF pos] by auto
  have ws: "well_shaped ?shape ?mask"
    using fold_set_cell [OF well_shaped_zeros cells, of "(0, 0, 0)" 1] pos
    by (simp add: in_shape_def)
  have val: "get_cell ?mask (a, b, c) =
               (if (int a, int b, int c) \<in> clamped_voxels ?shape ?pts then 1 else 0)"
    if "a < sx" "b < sy" "c < sz" for a b c
  proof -
    have ins: "in_shape ?shape (a, b, c)" using that by (simp add: in_shape_def)
    have mem: "(a, b, c) \<in> set ?cells \<longleftrightarrow> (int a, int b, int c) \<in> ijk_clipped ?shape ` set ?pts"
    proof
      assume "(a, b, c) \<in> set ?cells"
      then have "(a, b, c) \<in> (\<lambda>p. cell_of (ijk_clipped ?shape p)) ` set ?pts"
        by (simp only: set_map)
      then obtain p where p: "p \<in> set ?pts" "(a, b, c) = cell_of (ijk_clipped ?shape p)"
        by blast
      have "(int a, int b, int c) = ijk_clipped ?shape p"
        using cell_index_ijk_clipped(3) [OF pos, of p] p(2) [symmetric] by simp
      then show "(int a, int b, int c) \<in> ijk_clipped ?shape ` set ?pts" using p(1) by blast
    next
      assume "(int a, int b, int c) \<in> ijk_clipped ?shape ` set ?pts"
      then obtain p where p: "p \<in> set ?pts" "(int a, int b, int c) = ijk_clipped ?shape p"
        by blast
      have "cell_of (ijk_clipped ?shape p) = (a, b, c)"
        unfolding p(2) [symmetric] by (simp add: cell_of_def)
      then have "(a, b, c) \<in> (\<lambda>p. cell_of (ijk_clipped ?shape p)) ` set ?pts"
        using p(1) by (metis imageI)
      then show "(a, b, c) \<in> set ?cells" by (simp only: set_map)
    qed
    have "get_cell ?mask (a, b, c) = (if (a, b, c) \<in> set ?cells then 1 else get_cell (zeros ?shape) (a, b, c))"
      using fold_set_cell [OF well_shaped_zeros cells ins, of 1] by blast
    then show ?thesis
      unfolding mem ijk_clipped_clamped [OF pos] get_cell_zeros [OF ins] .
  qed
  have len: "length ?mask = sx" using ws by (simp add: well_shaped_def)
  have rows: "length (?mask ! a) = sy" if "a < sx" for a
    using ws that len by (auto simp: well_shaped_def)
  have lines: "length (?mask ! a ! b) = sz" if "a < sx" "b < sy" for a b
  proof -
    have "?mask ! a \<in> set ?mask" using that len by simp
    moreover have "?mask ! a ! b \<in> set (?mask ! a)" using that rows by simp
    ultimately show ?thesis using ws by (auto simp: well_shaped_def)
  qed
  show ?thesis
    using run len rows lines val by (auto simp: get_cell_def)
qed

lemma clipped_index_positive:
  assumes "np_index n (astype_int (clip x 0 (int n - 1))) \<noteq> None"
  shows "0 < n"
proof (rule ccontr)
  assume "\<not> 0 < n"
  then have n: "n = 0" by simp
  have "clip x 0 (int n - 1) = - 1" by (simp add: clip_def n)
  moreover have "\<lceil>- 1 :: real\<rceil> = - 1" by (simp add: ceiling_eq_iff)
  ultimately have "astype_int (clip x 0 (int n - 1)) = - 1" by (simp add: astype_int_def)
  then show False using assms by (simp add: np_index_def n)
qed

lemma cell_indices_Returns:
  assumes "cell_indices shape vs = Returns cells" and "v \<in> set vs"
  shows "cell_index shape v \<noteq> None"
  using assms
proof (induction vs arbitrary: cells)
  case Nil
  then show ?case by simp
next
  case (Cons w vs)
  obtain c where c: "cell_index shape w = Some c"
    using Cons.prems(1) by (cases "cell_index shape w") auto
  then obtain cs where cs: "cell_indices shape vs = Returns cs"
    using Cons.prems(1) by (cases "cell_indices shape vs") auto
  show ?case
  proof (cases "v = w")
    case True
    then show ?thesis using c by simp
  next
    case False
    then have "v \<in> set vs" using Cons.prems(2) by simp
    then show ?thesis using Cons.IH [OF cs] by simp
  qed
qed

lemma cell_index_shape_positive:
  assumes "cell_index (sx, sy, sz) (ijk_clipped (sx, sy, sz) p) \<noteq> None"
  shows "0 < sx \<and> 0 < sy \<and> 0 < sz"
proof -
  obtain x y z where p: "p = (x, y, z)" by (cases p) auto
  have "np_index sx (astype_int (clip x 0 (int sx - 1))) \<noteq> None"
    and "np_index sy (astype_int (clip y 0 (int sy - 1))) \<noteq> None"
    and "np_index sz (astype_int (clip z 0 (int sz - 1))) \<noteq> None"
    using assms by (auto simp: cell_index_def ijk_clipped_def p split: option.splits)
  then show ?thesis using clipped_index_positive by blast
qed

text \<open>
  Claim C7. For every image and every tractography, the mask rasterizer returns a grid
  when the tractography has at least one streamline, the affine is regular and the shape
  is positive on each axis; and any grid it returns has the image's shape, the cell
  \<open>(a, b, c)\<close> being 1 when \<open>(a, b, c)\<close> is the voxel index of a streamline point (its voxel
  coordinates cast to integers), clamped on each axis into \<open>[0, shape - 1]\<close>, and 0
  otherwise.
\<close>

theorem tract_mask_cells:
  assumes "image_shape img = (sx, sy, sz)"
  shows "(tractography \<noteq> [] \<and> ras_to_ijk img \<noteq> None \<and> 0 < sx \<and> 0 < sy \<and> 0 < sz
            \<longrightarrow> (\<exists>g. tract_mask img tractography = Returns g))
         \<and> (tract_mask img tractography = Returns m
            \<longrightarrow> (\<exists>solve. ras_to_ijk img = Some solve
                  \<and> length m = sx
                  \<and> (\<forall>a < sx. length (m ! a) = sy
                        \<and> (\<forall>b < sy. length (m ! a ! b) = sz
                              \<and> (\<forall>c < sz. m ! a ! b ! c =
                                    (if (int a, int b, int c)
                                         \<in> clamped_voxels (sx, sy, sz) (map solve (concat tractography))
                                     then 1 else 0))))))"
proof (intro conjI impI)
  assume "tractography \<noteq> [] \<and> ras_to_ijk img \<noteq> None \<and> 0 < sx \<and> 0 < sy \<and> 0 < sz"
  then show "\<exists>g. tract_mask img tractography = Returns g"
    using tract_mask_regular [of tractography img _ sx sy sz] assms by blast
next
  assume run: "tract_mask img tractography = Returns m"
  have ne: "tractography \<noteq> []"
    using run by (auto simp: tract_mask_def tract_in_ijk_def vstack_def split: if_splits)
  then obtain solve where solve: "ras_to_ijk img = Some solve"
    using run by (cases "ras_to_ijk img") (auto simp: tract_mask_def tract_in_ijk_def vstack_def)
  let ?pts = "map solve (concat tractography)"
  obtain cells where cells: "cell_indices (sx, sy, sz) (map (ijk_clipped (sx, sy, sz)) ?pts) = Returns cells"
    and mask: "m = fold (\<lambda>c m. set_cell m c 1) cells (zeros (sx, sy, sz))"
    using run ne solve assms
    by (cases "cell_indices (sx, sy, sz) (map (ijk_clipped (sx, sy, sz)) ?pts)")
       (auto simp: tract_mask_def tract_in_ijk_def vstack_def)
  have "length m = sx
          \<and> (\<forall>a < sx. length (m ! a) = sy
                \<and> (\<forall>b < sy. length (m ! a ! b) = sz
                      \<and> (\<forall>c < sz. m ! a ! b ! c =
                            (if (int a, int b, int c) \<in> clamped_voxels (sx, sy, sz) ?pts
                             then 1 else 0))))"
  proof (cases "?pts = []")
    case True
    have "cell_indices (sx, sy, sz) (map (ijk_clipped (sx, sy, sz)) []) = Returns cells"
      using cells unfolding True .
    then have "cells = []" by simp
    then have "m = zeros (sx, sy, sz)" using mask by simp
    then show ?thesis unfolding True by (simp add: zeros_def clamped_voxels_def)
  next
    case False
    then obtain p where "p \<in> set ?pts" by (cases ?pts) auto
    then have "ijk_clipped (sx, sy, sz) p \<in> set (map (ijk_clipped (sx, sy, sz)) ?pts)"
      by (simp only: set_map) (rule imageI)
    then have "cell_index (sx, sy, sz) (ijk_clipped (sx, sy, sz) p) \<noteq> None"
      by (rule cell_indices_Returns [OF cells])
    then have pos: "0 < sx" "0 < sy" "0 < sz"
      using cell_index_shape_positive by blast+
    show ?thesis
      using tract_mask_regular [OF ne solve assms pos] run by auto
  qed
  then show "\<exists>solve. ras_to_ijk img = Some solve
                  \<and> length m = sx
                  \<and> (\<forall>a < sx. length (m ! a) = sy
                        \<and> (\<forall>b < sy. length (m ! a ! b) = sz
                              \<and> (\<forall>c < sz. m ! a ! b ! c =
                                    (if (int a, int b, int c)
                                         \<in> clamped_voxels (sx, sy, sz) (map solve (concat tractography))
                                     then 1 else 0))))"
    using solve by blast
qed

theorem tract_mask_cells_witness:
  "[[(0, 0, 0), (1, 0, 3)], [(100, - 1, 39 / 10), (19 / 10, 19 / 10, 0)]] \<noteq> ([] :: streamline list)
   \<and> (0 :: nat) < 2 \<and> (0 :: nat) < 3
   \<and> tract_mask \<lparr>image_shape = (2, 2, 3), ras_to_ijk = Some (\<lambda>(x, y, z). (x / 2, y / 2, z / 2))\<rparr>
         [[(0, 0, 0), (1, 0, 3)], [(100, - 1, 39 / 10), (19 / 10, 19 / 10, 0)]]
       = Returns [[[1, 1, 0], [0, 0, 0]], [[0, 1, 0], [0, 0, 0]]]
   \<and> clamped_voxels (2, 2, 3)
         (map (\<lambda>(x, y, z). (x / 2, y / 2, z / 2))
            (concat [[(0, 0, 0), (1, 0, 3)], [(100, - 1, 39 / 10), (19 / 10, 19 / 10, 0)]]))
       = {(0, 0, 0), (0, 0, 1), (1, 0, 1)}"
proof -
  let ?solve = "\<lambda>(x, y, z). (x / 2, y / 2, z / 2) :: vec3"
  let ?img = "\<lparr>image_shape = (2, 2, 3), ras_to_ijk = Some ?solve\<rparr>"
  let ?tracts = "[[(0, 0, 0), (1, 0, 3)], [(100, - 1, 39 / 10), (19 / 10, 19 / 10, 0)]] :: streamline list"
  have v: "clamped_voxels (2, 2, 3) (map ?solve (concat ?tracts)) = {(0, 0, 0), (0, 0, 1), (1, 0, 1)}"
    by code_simp
  have sh: "image_shape ?img = (2, 2, 3)" by simp
  have "\<exists>g. tract_mask ?img ?tracts = Returns g"
    using conjunct1 [OF tract_mask_cells [OF sh, of ?tracts]] by simp
  then obtain g where m: "tract_mask ?img ?tracts = Returns g" by blast
  have "\<exists>solve. ras_to_ijk ?img = Some solve
      \<and> length g = 2
      \<and> (\<forall>a < 2. length (g ! a) = 2
            \<and> (\<forall>b < 2. length (g ! a ! b) = 3
                  \<and> (\<forall>c < 3. g ! a ! b ! c =
                        (if (int a, int b, int c) \<in> clamped_voxels (2, 2, 3) (map solve (concat ?tracts))
                         then 1 else 0))))"
    by (rule mp [OF conjunct2 [OF tract_mask_cells [OF sh]] m])
  then obtain solve where s: "ras_to_ijk ?img = Some solve"
    and body: "length g = 2
      \<and> (\<forall>a < 2. length (g ! a) = 2
            \<and> (\<forall>b < 2. length (g ! a ! b) = 3
                  \<and> (\<forall>c < 3. g ! a ! b ! c =
                        (if (int a, int b, int c) \<in> clamped_voxels (2, 2, 3) (map solve (concat ?tracts))
                         then 1 else 0))))"
    by blast
  have "solve = ?solve" using s by simp
  have props: "length g = 2
      \<and> (\<forall>a < 2. length (g ! a) = 2
            \<and> (\<forall>b < 2. length (g ! a ! b) = 3
                  \<and> (\<forall>c < 3. g ! a ! b ! c =
                        (if (int a, int b, int c) \<in> {(0, 0, 0), (0, 0, 1), (1, 0, 1)} then 1 else 0))))"
    using body unfolding \<open>solve = ?solve\<close> v .
  have "g = [[[1, 1, 0], [0, 0, 0]], [[0, 1, 0], [0, 0, 0]]]"
  proof -
    have l: "length g = 2" "length (g ! 0) = 2" "length (g ! 1) = 2"
      "length (g ! 0 ! 0) = 3" "length (g ! 0 ! 1) = 3"
      "length (g ! 1 ! 0) = 3" "length (g ! 1 ! 1) = 3"
      using props by auto
    have c: "g ! 0 ! 0 ! 0 = 1" "g ! 0 ! 0 ! 1 = 1" "g ! 0 ! 0 ! 2 = 0"
      "g ! 0 ! 1 ! 0 = 0" "g ! 0 ! 1 ! 1 = 0" "g ! 0 ! 1 ! 2 = 0"
      "g ! 1 ! 0 ! 0 = 0" "g ! 1 ! 0 ! 1 = 1" "g ! 1 ! 0 ! 2 = 0"
      "g ! 1 ! 1 ! 0 = 0" "g ! 1 ! 1 ! 1 = 0" "g ! 1 ! 1 ! 2 = 0"
      using props by auto
    have three: "xs = [xs ! 0, xs ! 1, xs ! 2]" if "length xs = 3" for xs :: "real list"
      using that by (cases xs; cases "tl xs"; cases "tl (tl xs)") (auto simp: numeral_2_eq_2)
    have two: "ys = [ys ! 0, ys ! 1]" if "length ys = 2" for ys :: "'a list"
      using that by (cases ys; cases "tl ys") auto
    have "g ! 0 ! 0 = [1, 1, 0]" "g ! 0 ! 1 = [0, 0, 0]"
      "g ! 1 ! 0 = [0, 1, 0]" "g ! 1 ! 1 = [0, 0, 0]"
      using three [OF l(4)] three [OF l(5)] three [OF l(6)] three [OF l(7)] c by simp_all
    then have "g ! 0 = [[1, 1, 0], [0, 0, 0]]" "g ! 1 = [[0, 1, 0], [0, 0, 0]]"
      using two [OF l(2)] two [OF l(3)] by simp_all
    then show ?thesis using two [OF l(1)] by simp
  qed
  then show ?thesis using m v by simp
qed

subsection \<open>Union probability map\<close>

lemma union_loop_filter:
  "union_loop img prob_map tracts = union_loop img prob_map (filter (\<lambda>t. t \<noteq> []) tracts)"
proof (induction tracts arbitrary: prob_map)
  case Nil
  then show ?case by simp
next
  case (Cons t tracts)
  show ?case
  proof (cases "t = []")
    case True
    then show ?thesis using Cons.IH [of prob_map] by (simp add: union_step_def)
  next
    case False
    then show ?thesis
      using Cons.IH by (cases "union_step img prob_map t") simp_all
  qed
qed

text \<open>
  Claim C10. In the union probability map, a member after the first that has no
  streamlines is skipped: the step returns the grid it was given, the loop goes on with
  that grid, and the whole operation has the outcome it has without the empty members,
  so that an empty member never makes it fail.
\<close>

theorem union_probability_skips_empty:
  "union_step img prob_map [] = Returns prob_map
   \<and> union_loop img prob_map ([] # tracts) = union_loop img prob_map tracts
   \<and> tract_generate_probability_map (first # others) img
       = tract_generate_probability_map (first # filter (\<lambda>t. t \<noteq> []) others) img"
proof -
  have "tract_generate_probability_map (first # others) img
          = tract_generate_probability_map (first # filter (\<lambda>t. t \<noteq> []) others) img"
    unfolding tract_generate_probability_map_def
    by (cases "tract_probability_map img first") (simp_all add: union_loop_filter [symmetric])
  then show ?thesis by (simp add: union_step_def)
qed

subsection \<open>Range of the Bhattacharyya histograms\<close>

text \<open>
  Whatever the reference tractography and the earlier comparison tractographies reach,
  the upper bound that the loop leaves is the maximum of the last comparison tractography
  alone.
\<close>

lemma maximum_of_lower:
  assumes "pts \<noteq> []" and "points_min pts = Returns lo" and "points_max pts = Returns hi"
  shows "maximum (minimum mn lo) hi = hi"
proof -
  have le: "Min (f ` set pts) \<le> Max (f ` set pts)" for f :: "vec3 \<Rightarrow> real"
  proof -
    have "f (hd pts) \<in> f ` set pts" using assms(1) by simp
    then have "Min (f ` set pts) \<le> f (hd pts)" "f (hd pts) \<le> Max (f ` set pts)"
      by (simp_all only: Min_le Max_ge finite_imageI finite_set)
    then show ?thesis by linarith
  qed
  obtain a b c where mn: "mn = (a, b, c)" by (cases mn) auto
  define lx where "lx = Min ((\<lambda>(x, y, z). x) ` set pts)"
  define ly where "ly = Min ((\<lambda>(x, y, z). y) ` set pts)"
  define lz where "lz = Min ((\<lambda>(x, y, z). z) ` set pts)"
  define hx where "hx = Max ((\<lambda>(x, y, z). x) ` set pts)"
  define hy where "hy = Max ((\<lambda>(x, y, z). y) ` set pts)"
  define hz where "hz = Max ((\<lambda>(x, y, z). z) ` set pts)"
  have les: "lx \<le> hx" "ly \<le> hy" "lz \<le> hz"
    unfolding lx_def ly_def lz_def hx_def hy_def hz_def by (rule le)+
  have lo: "lo = (lx, ly, lz)" and hi: "hi = (hx, hy, hz)"
    using assms unfolding lx_def ly_def lz_def hx_def hy_def hz_def
    by (simp_all add: points_min_def points_max_def)
  show ?thesis
    unfolding lo hi mn using les by (simp add: maximum_def minimum_def)
qed

lemma range_loop_upper_is_last:
  assumes "other_tracts_points \<noteq> []"
    and "range_loop mn mx other_tracts_points = Returns (mn', mx')"
  shows "points_max (last other_tracts_points) = Returns mx'"
  using assms
proof (induction other_tracts_points arbitrary: mn mx)
  case Nil
  then show ?case by simp
next
  case (Cons pts rest)
  have ne: "pts \<noteq> []"
    using Cons.prems(2) by (auto simp: points_min_def split: if_splits)
  obtain lo hi where lo: "points_min pts = Returns lo" and hi: "points_max pts = Returns hi"
    using ne by (simp add: points_min_def points_max_def)
  have step: "range_loop (minimum mn lo) (maximum (minimum mn lo) hi) rest = Returns (mn', mx')"
    using Cons.prems(2) lo hi by (simp add: Let_def)
  show ?case
  proof (cases "rest = []")
    case True
    then have "mx' = maximum (minimum mn lo) hi" using step by auto
    then show ?thesis using True hi maximum_of_lower [OF ne lo hi] by simp
  next
    case False
    then show ?thesis using Cons.IH [OF False step] by simp
  qed
qed

text \<open>
  Claim C2, at a reference tractography that reaches up to 10 on each axis and one
  comparison tractography that reaches up to 5: the upper bound of the shared range is 5,
  the maximum of the comparison tractography alone, and not 10, the maximum of all maxima.
\<close>

theorem bhattacharyya_range_upper_bound:
  "bhattacharyya_range [[(0, 0, 0), (10, 10, 10)]] [[[(0, 0, 0), (5, 5, 5)]]]
     = Returns ((0, 0, 0), (5, 5, 5))
   \<and> union_bounds [[(0, 0, 0), (10, 10, 10)], [(0, 0, 0), (5, 5, 5)]]
     = ((0, 0, 0), (10, 10, 10))"
  by code_simp

subsection \<open>Smoothing: the arrays of the input\<close>

text \<open>
  The loop over a tractography whose streamlines are separate arrays: it overwrites the
  arrays in turn, each with the rows computed from the points the array held before the
  call, and stops with \<open>IndexError\<close> at the first array with fewer than two points, the
  arrays before that one already overwritten.
\<close>

lemma finite_rows_Some: "finite_rows (map Some pts) = Some pts"
  by (auto simp: finite_rows_def comp_def)

lemma smooth_tract_finite:
  "smooth_tract tie all_points var std (map Some pts)
     = (if length pts < 2 then Raises IndexError
        else Returns (weighted_points tie all_points var std pts))"
  by (simp add: smooth_tract_def finite_rows_Some)

lemma smooth_loop_distinct:
  assumes "distinct tracts" and "\<forall>a \<in> set tracts. g a = map Some (h a)"
  shows "smooth_loop tie all_points var std tracts g
           = (if \<forall>a \<in> set tracts. 2 \<le> length (h a) then Returns () else Raises IndexError,
              \<lambda>a. if a \<in> set (takeWhile (\<lambda>a. 2 \<le> length (h a)) tracts)
                   then weighted_points tie all_points var std (h a) else g a)"
  using assms
proof (induction tracts arbitrary: g)
  case Nil
  then show ?case by simp
next
  case (Cons t tracts)
  let ?w = "weighted_points tie all_points var std (h t)"
  let ?g = "g(t := ?w)"
  have gt: "g t = map Some (h t)" using Cons.prems(2) by simp
  show ?case
  proof (cases "2 \<le> length (h t)")
    case False
    then show ?thesis by (simp add: gt smooth_tract_finite)
  next
    case True
    have t: "smooth_tract tie all_points var std (g t) = Returns ?w"
      using True by (simp add: gt smooth_tract_finite)
    have rest: "\<forall>a \<in> set tracts. ?g a = map Some (h a)"
      using Cons.prems by auto
    have d: "distinct tracts" using Cons.prems(1) by simp
    have "smooth_loop tie all_points var std tracts ?g
        = (if \<forall>a \<in> set tracts. 2 \<le> length (h a) then Returns () else Raises IndexError,
           \<lambda>a. if a \<in> set (takeWhile (\<lambda>a. 2 \<le> length (h a)) tracts)
                then weighted_points tie all_points var std (h a) else ?g a)"
      by (rule Cons.IH [OF d rest])
    moreover have "t \<notin> set (takeWhile (\<lambda>a. 2 \<le> length (h a)) tracts)"
      using Cons.prems(1) set_takeWhileD [of t _ tracts] by auto
    then have "(\<lambda>a. if a \<in> set (takeWhile (\<lambda>a. 2 \<le> length (h a)) tracts)
                then weighted_points tie all_points var std (h a) else ?g a)
        = (\<lambda>a. if a \<in> set (takeWhile (\<lambda>a. 2 \<le> length (h a)) (t # tracts))
                then weighted_points tie all_points var std (h a) else g a)"
      using True by auto
    ultimately show ?thesis using t True by simp
  qed
qed

lemma tract_smooth_store:
  assumes "distinct tractography" and "concat (map h tractography) \<noteq> []"
  shows "tract_smooth tie tractography var h
           = (if \<forall>a \<in> set tractography. 2 \<le> length (h a)
              then Returns tractography else Raises IndexError,
              \<lambda>a. if a \<in> set (takeWhile (\<lambda>a. 2 \<le> length (h a)) tractography)
                   then weighted_points tie (concat (map h tractography)) var (var\<^sup>2) (h a)
                   else map Some (h a))"
proof -
  have t: "tractography \<noteq> []" using assms(2) by auto
  then have v: "vstack (map h tractography) = Returns (concat (map h tractography))"
    by (simp add: vstack_def)
  have pre: "\<forall>a \<in> set tractography. embed h a = map Some (h a)"
    by (simp add: embed_def)
  have e: "embed h = (\<lambda>a. map Some (h a))" by (simp add: embed_def)
  have "smooth_loop tie (concat (map h tractography)) var (var\<^sup>2) tractography (embed h)
          = (if \<forall>a \<in> set tractography. 2 \<le> length (h a) then Returns () else Raises IndexError,
             \<lambda>a. if a \<in> set (takeWhile (\<lambda>a. 2 \<le> length (h a)) tractography)
                  then weighted_points tie (concat (map h tractography)) var (var\<^sup>2) (h a)
                  else map Some (h a))"
    unfolding smooth_loop_distinct [OF assms(1) pre] by (simp add: e cong: if_cong)
  then show ?thesis
    unfolding tract_smooth_def Let_def v using assms(2) t by auto
qed

lemma length_np_diff: "length (np_diff tract) = length tract - 1"
  by (induction tract rule: np_diff.induct) simp_all

lemma length_tangents: "2 \<le> length tract \<Longrightarrow> length (tangents tract) = length tract"
  by (simp add: tangents_def Let_def length_np_diff)

lemma weighted_points_nth:
  assumes "2 \<le> length tract" and "i < length tract"
  shows "weighted_points tie all_points var std tract ! i
           = smooth_point tie all_points std (neighbor_count all_points var tract)
               (tangents tract ! i) (tract ! i)"
  using assms by (simp add: weighted_points_def Let_def length_tangents)

lemma tract_smooth_row:
  assumes "distinct tractography" and "\<forall>a \<in> set tractography. 2 \<le> length (h a)"
    and "a \<in> set tractography" and "i < length (h a)"
  shows "snd (tract_smooth tie tractography var h) a ! i
           = smooth_point tie (concat (map h tractography)) (var\<^sup>2)
               (neighbor_count (concat (map h tractography)) var (h a))
               (tangents (h a) ! i) (h a ! i)"
proof -
  have "h a \<noteq> []" using assms(4) by auto
  then have ne: "concat (map h tractography) \<noteq> []" using assms(3) by auto
  have all: "takeWhile (\<lambda>a. 2 \<le> length (h a)) tractography = tractography"
    using assms(2) by simp
  have l: "2 \<le> length (h a)" using assms(2,3) by simp
  show ?thesis
    unfolding tract_smooth_store [OF assms(1) ne] all
    using assms(3) by (simp add: weighted_points_nth [OF l assms(4)])
qed

subsection \<open>Smoothing: weights, neighbours and rows\<close>

lemma sum_list_exp_pos:
  fixes f :: "real \<Rightarrow> real"
  assumes "ds \<noteq> []"
  shows "0 < (\<Sum>d \<leftarrow> ds. exp (f d))"
  using assms
proof (induction ds)
  case Nil
  then show ?case by simp
next
  case (Cons d ds)
  have "0 \<le> (\<Sum>d \<leftarrow> ds. exp (f d))" by (rule sum_list_nonneg) auto
  then show ?case by (simp add: add_pos_nonneg)
qed

lemma sum_list_normalised:
  fixes ws :: "real list"
  assumes "sum_list ws \<noteq> 0"
  shows "(\<Sum>w \<leftarrow> ws. w / sum_list ws) = 1"
proof -
  have "(\<Sum>w \<leftarrow> ws. w / sum_list ws) = (\<Sum>w \<leftarrow> ws. w * inverse (sum_list ws))"
    by (simp add: divide_inverse)
  also have "\<dots> = sum_list ws * inverse (sum_list ws)"
    by (simp add: sum_list_mult_const)
  finally show ?thesis using assms by simp
qed

lemma spec_weights_sum:
  assumes "ds \<noteq> []"
  shows "sum_list (spec_weights v ds) = 1"
proof -
  let ?ws = "map (\<lambda>d. exp (- d\<^sup>2 / (2 * v))) ds"
  have "0 < sum_list ?ws"
    using sum_list_exp_pos [OF assms, of "\<lambda>d. - d\<^sup>2 / (2 * v)"] by (simp add: comp_def)
  then have "(\<Sum>w \<leftarrow> ?ws. w / sum_list ?ws) = 1"
    by (intro sum_list_normalised) simp
  then show ?thesis by (simp add: spec_weights_def comp_def)
qed

lemma kernel_weights_spec:
  assumes "var \<noteq> 0"
  shows "kernel_weights (var\<^sup>2) ds = map Some (spec_weights (var\<^sup>2) ds)"
proof -
  have e: "exp (- (1 / 2) * d\<^sup>2 / var\<^sup>2) = exp (- d\<^sup>2 / (2 * var\<^sup>2))" for d :: real
    by (simp add: field_simps)
  show ?thesis
    using assms unfolding kernel_weights_def spec_weights_def Let_def e
    by (simp add: comp_def)
qed

lemma smooth_point_spec:
  assumes "var \<noteq> 0"
  shows "smooth_point tie all_points (var\<^sup>2) N t p
           = spec_smooth_point tie all_points (var\<^sup>2) N t p"
  by (simp add: smooth_point_def spec_smooth_point_def Let_def kernel_weights_spec [OF assms])

lemma length_query: "length (query tie all_points p k) = min k (length all_points)"
  by (simp add: query_def)

lemma distance_self: "distance p p = 0"
  by (simp add: distance_def row_length_def sub_vec_def split: prod.splits)

lemma query_radius_self:
  assumes "p \<in> set all_points" and "0 \<le> r"
  shows "0 < length (query_radius all_points p r)"
proof -
  obtain i where i: "i < length all_points" "all_points ! i = p"
    using assms(1) by (auto simp: in_set_conv_nth)
  then have "i \<in> set (query_radius all_points p r)"
    using assms(2) by (simp add: query_radius_def distance_self)
  then show ?thesis by (cases "query_radius all_points p r") auto
qed

lemma length_query_radius: "length (query_radius all_points p r) \<le> length all_points"
proof -
  have "length (query_radius all_points p r) \<le> length [0..<length all_points]"
    unfolding query_radius_def by (rule length_filter_le)
  then show ?thesis by simp
qed

lemma neighbor_count_bounds:
  assumes "tract \<noteq> []" and "set tract \<subseteq> set all_points" and "0 \<le> var"
  shows "1 \<le> neighbor_count all_points var tract"
    and "neighbor_count all_points var tract \<le> length all_points"
proof -
  let ?S = "set (map (\<lambda>p. length (query_radius all_points p (var * 3))) tract)"
  have fin: "finite ?S" by simp
  have ne: "?S \<noteq> {}" using assms(1) by simp
  have "hd tract \<in> set all_points" using assms(1,2) by auto
  then have "0 < length (query_radius all_points (hd tract) (var * 3))"
    using assms(3) by (intro query_radius_self) auto
  moreover have "length (query_radius all_points (hd tract) (var * 3)) \<in> ?S"
    using assms(1) by auto
  then have "length (query_radius all_points (hd tract) (var * 3)) \<le> Max ?S"
    using fin by (rule Max_ge [rotated])
  ultimately show "1 \<le> neighbor_count all_points var tract"
    unfolding neighbor_count_def by linarith
  have "Max ?S \<in> ?S" using fin ne by (rule Max_in)
  then obtain p where "Max ?S = length (query_radius all_points p (var * 3))" by auto
  then show "neighbor_count all_points var tract \<le> length all_points"
    unfolding neighbor_count_def using length_query_radius [of all_points p "var * 3"] by simp
qed

lemma sum_rows_None: "None \<in> set rows \<Longrightarrow> sum_rows rows = None"
proof (induction rows)
  case Nil
  then show ?case by simp
next
  case (Cons r rows)
  show ?case
  proof (cases r)
    case None
    then show ?thesis by (simp add: sum_rows_def)
  next
    case (Some q)
    then have "None \<in> set rows" using Cons.prems by auto
    then have "sum_rows rows = None" by (rule Cons.IH)
    then show ?thesis by (simp add: sum_rows_def Some)
  qed
qed

lemma smooth_point_None:
  assumes "0 < N" and "all_points \<noteq> []" and "t = None \<or> std = 0"
  shows "smooth_point tie all_points std N t p = None"
proof -
  let ?close = "query tie all_points p N"
  let ?rows = "map2 mul_row (projected_points all_points ?close t p)
                 (kernel_weights std (map fst ?close))"
  have "0 < min N (length all_points)" using assms(1,2) by simp
  then have len: "0 < length ?close" by (simp only: length_query)
  have lp: "length (projected_points all_points ?close t p) = length ?close"
    by (simp add: projected_points_def Let_def split: option.splits)
  have lw: "length (kernel_weights std (map fst ?close)) = length ?close"
    by (simp add: kernel_weights_def Let_def)
  have l: "0 < length ?rows" using len lp lw by simp
  have "?rows ! 0 = mul_row (projected_points all_points ?close t p ! 0)
                      (kernel_weights std (map fst ?close) ! 0)"
    using len lp lw by simp
  also have "\<dots> = None"
  proof (cases "t = None")
    case True
    then have "projected_points all_points ?close t p ! 0 = None"
      using len by (simp add: projected_points_def Let_def)
    then show ?thesis by simp
  next
    case False
    with assms(3) have "std = 0" by blast
    then have "kernel_weights std (map fst ?close) ! 0 = None"
      using len by (simp add: kernel_weights_def)
    then show ?thesis by (cases "projected_points all_points ?close t p ! 0") simp_all
  qed
  finally have "?rows ! 0 = None" .
  then have "None \<in> set ?rows" using l by (metis nth_mem)
  then have "sum_rows ?rows = None" by (rule sum_rows_None)
  then show ?thesis by (simp add: smooth_point_def Let_def)
qed

lemma query_sorted:
  assumes "mset ys = mset (zip (map (\<lambda>q. distance q p) all_points) [0..<length all_points])"
    and "sorted (map fst ys)" and "distinct (map fst ys)"
  shows "query tie all_points p k = take k ys"
proof -
  let ?xs = "sort_key (\<lambda>c. tie p k (snd c))
               (zip (map (\<lambda>q. distance q p) all_points) [0..<length all_points])"
  have m: "mset ?xs = mset ys" using assms(1) by simp
  then have "set ?xs = set ys" by (rule mset_eq_setD)
  moreover have "inj_on fst (set ys)" using assms(3) by (simp add: distinct_map)
  ultimately have "inj_on fst (set ?xs)" by simp
  then have "sort_key fst ?xs = ys" using m assms(2) by (intro sort_key_inj_key_eq)
  then show ?thesis by (simp add: query_def)
qed







subsection \<open>Smoothing: a streamline with a corner\<close>

text \<open>
  The streamline \<open>(0, 0, 0)\<close>, \<open>(5, 0, 0)\<close>, \<open>(5, 12, 0)\<close>, smoothed alone with the parameter
  2. The distances between its points are 5, 12 and 13, so that no two neighbours of a
  point are at the same distance from it and the answer of the ball tree does not depend
  on how it breaks ties. The radius is 6: the first two points have two neighbours each
  (themselves and each other), the last has itself only, and \<open>N = 2\<close>. The tangent at the
  middle point is \<open>(0, 1, 0)\<close>; its neighbour \<open>(0, 0, 0)\<close>, at the distance 5, projects to
  \<open>(0, 0, 0)\<close>, and the new position of the middle point is \<open>5 / (1 + w)\<close> on the first
  axis, with \<open>w = exp (- 25 / (2 std))\<close> the weight of that neighbour before the
  normalisation.
\<close>

lemma sqrt_25: "sqrt 25 = 5" by (rule real_sqrt_unique) simp_all
lemma sqrt_144: "sqrt 144 = 12" by (rule real_sqrt_unique) simp_all
lemma sqrt_169: "sqrt 169 = 13" by (rule real_sqrt_unique) simp_all

lemma corner_distances:
  "distance (0, 0, 0) (5, 0, 0) = 5"
  "distance (5, 0, 0) (5, 0, 0) = 0"
  "distance (5, 12, 0) (5, 0, 0) = 12"
  by (simp_all add: distance_def row_length_def sub_vec_def sqrt_25 sqrt_144)

lemma corner_neighbor_count:
  "neighbor_count [(0, 0, 0), (5, 0, 0), (5, 12, 0)] 2 [(0, 0, 0), (5, 0, 0), (5, 12, 0)] = 2"
  by (simp add: neighbor_count_def query_radius_def distance_def row_length_def sub_vec_def
      sqrt_25 sqrt_144 sqrt_169 upt_rec [of 0] upt_rec [of 1] upt_rec [of 2])

lemma corner_tangents:
  "tangents [(0, 0, 0), (5, 0, 0), (5, 12, 0)] = [Some (1, 0, 0), Some (0, 1, 0), Some (0, 1, 0)]"
  by (simp add: tangents_def sub_vec_def row_length_def div_row_def div_point_def sqrt_25 sqrt_144)

lemma corner_query:
  "query tie [(0, 0, 0), (5, 0, 0), (5, 12, 0)] (5, 0, 0) 2 = [(0, 1), (5, 0)]"
proof -
  have "query tie [(0, 0, 0), (5, 0, 0), (5, 12, 0)] (5, 0, 0) 2 = take 2 [(0, 1), (5, 0), (12, 2)]"
    by (rule query_sorted) (simp_all add: corner_distances upt_rec [of 0] upt_rec [of 1] upt_rec [of 2])
  then show ?thesis by simp
qed

lemma corner_point:
  assumes "std \<noteq> 0"
  shows "smooth_point tie [(0, 0, 0), (5, 0, 0), (5, 12, 0)] std 2 (Some (0, 1, 0)) (5, 0, 0)
     = Some (5 / (1 + exp (- (25 / 2) / std)), 0, 0)"
  using assms
  by (simp add: smooth_point_def corner_query kernel_weights_def projected_points_def
      sum_rows_def normal_plane_def tangent_line_def project_def sum_vec_def scale_vec_def
      add_vec_def sub_vec_def)

lemma corner_row:
  assumes "var \<noteq> 0" and "neighbor_count [(0, 0, 0), (5, 0, 0), (5, 12, 0)] var [(0, 0, 0), (5, 0, 0), (5, 12, 0)] = 2"
  shows "snd (tract_smooth tie [0] var (\<lambda>a. [(0, 0, 0), (5, 0, 0), (5, 12, 0)])) 0 ! 1
           = Some (5 / (1 + exp (- (25 / 2) / var\<^sup>2)), 0, 0)"
proof -
  have "snd (tract_smooth tie [0] var (\<lambda>a. [(0, 0, 0), (5, 0, 0), (5, 12, 0)])) 0 ! 1
          = smooth_point tie [(0, 0, 0), (5, 0, 0), (5, 12, 0)] (var\<^sup>2) 2 (Some (0, 1, 0)) (5, 0, 0)"
    using tract_smooth_row [of "[0]" "\<lambda>a. [(0, 0, 0), (5, 0, 0), (5, 12, 0)]" 0 1 tie var]
    by (simp add: assms(2) corner_tangents)
  then show ?thesis using assms(1) by (simp add: corner_point)
qed

subsection \<open>Smoothing: the weights of the neighbours\<close>

text \<open>
  Claim C3, as the code has it. \<^verbatim>\<open>tract_smooth\<close> computes \<open>std = var ** 2\<close> and divides
  the squared distances by it. For a tractography of separate arrays with at least two
  points each and a parameter \<open>var\<close> that is not below zero, every point of a streamline
  has \<open>k\<close> nearest neighbours, at least one. For \<open>var\<close> above zero, the row that smoothing
  writes for the point is the sum of the projected candidates of these neighbours, each
  times the weight of the specification for the variance \<open>var\<^sup>2\<close>: the neighbour at the
  distance \<open>d\<close> has the weight \<open>exp (- d\<^sup>2 / (2 var\<^sup>2))\<close> divided by the sum of these over
  the \<open>k\<close> neighbours, the distances being those of the neighbours themselves, as the query
  gives them; and the weights of a point sum to 1. For \<open>var = 0\<close> every weight is \<open>NaN\<close>,
  and the row written is \<open>NaN\<close>.
\<close>

theorem tract_smooth_kernel_weights:
  assumes "distinct tractography" and "\<forall>a \<in> set tractography. 2 \<le> length (h a)"
    and "0 \<le> var" and "a \<in> set tractography" and "i < length (h a)"
  shows "let all_points = concat (map h tractography);
             k = neighbor_count all_points var (h a);
             ds = map fst (query tie all_points (h a ! i) k);
             row = snd (tract_smooth tie tractography var h) a ! i
         in 1 \<le> k \<and> length ds = k
            \<and> (0 < var \<longrightarrow>
                  row = spec_smooth_point tie all_points (var\<^sup>2) k (tangents (h a) ! i) (h a ! i)
                  \<and> (\<forall>j < k. spec_weights (var\<^sup>2) ds ! j
                        = exp (- (ds ! j)\<^sup>2 / (2 * var\<^sup>2))
                            / (\<Sum>d \<leftarrow> ds. exp (- d\<^sup>2 / (2 * var\<^sup>2))))
                  \<and> sum_list (spec_weights (var\<^sup>2) ds) = 1)
            \<and> (var = 0 \<longrightarrow> row = None)"
proof -
  define all_points where "all_points = concat (map h tractography)"
  define k where "k = neighbor_count all_points var (h a)"
  define ds where "ds = map fst (query tie all_points (h a ! i) k)"
  define row where "row = snd (tract_smooth tie tractography var h) a ! i"
  have ne: "h a \<noteq> []" using assms(5) by auto
  have sub: "set (h a) \<subseteq> set all_points" using assms(4) by (auto simp: all_points_def)
  have ap: "all_points \<noteq> []" using ne sub by auto
  have k: "1 \<le> k" "k \<le> length all_points"
    unfolding k_def by (rule neighbor_count_bounds [OF ne sub assms(3)])+
  have len: "length ds = k" using k(2) by (simp add: ds_def length_query)
  then have "ds \<noteq> []" using k(1) by auto
  then have one: "sum_list (spec_weights (var\<^sup>2) ds) = 1" by (rule spec_weights_sum)
  have row: "row = smooth_point tie all_points (var\<^sup>2) k (tangents (h a) ! i) (h a ! i)"
    unfolding row_def tract_smooth_row [OF assms(1,2,4,5)] all_points_def k_def ..
  have pos: "row = spec_smooth_point tie all_points (var\<^sup>2) k (tangents (h a) ! i) (h a ! i)"
    if "0 < var"
    unfolding row using that by (intro smooth_point_spec) simp
  have zero: "row = None" if "var = 0"
    unfolding row using k(1) ap that by (intro smooth_point_None) simp_all
  have "1 \<le> k \<and> length ds = k
            \<and> (0 < var \<longrightarrow>
                  row = spec_smooth_point tie all_points (var\<^sup>2) k (tangents (h a) ! i) (h a ! i)
                  \<and> (\<forall>j < k. spec_weights (var\<^sup>2) ds ! j
                        = exp (- (ds ! j)\<^sup>2 / (2 * var\<^sup>2))
                            / (\<Sum>d \<leftarrow> ds. exp (- d\<^sup>2 / (2 * var\<^sup>2))))
                  \<and> sum_list (spec_weights (var\<^sup>2) ds) = 1)
            \<and> (var = 0 \<longrightarrow> row = None)"
    using pos zero one len k(1) by (simp add: spec_weights_def)
  then show ?thesis
    unfolding Let_def all_points_def [symmetric] k_def [symmetric] ds_def [symmetric]
      row_def [symmetric] .
qed

theorem tract_smooth_kernel_weights_witness:
  "\<forall>tie.
     distinct [0 :: nat] \<and> (0 :: real) < 2
     \<and> snd (tract_smooth tie [0] 2 (\<lambda>a. [(0, 0, 0), (5, 0, 0), (5, 12, 0)])) 0 ! 1
         = spec_smooth_point tie [(0, 0, 0), (5, 0, 0), (5, 12, 0)] (2\<^sup>2) 2
             (Some (0, 1, 0)) (5, 0, 0)
     \<and> map fst (query tie [(0, 0, 0), (5, 0, 0), (5, 12, 0)] (5, 0, 0) 2) = [0, 5]
     \<and> spec_weights (2\<^sup>2) [0, 5] ! 1 = exp (- (25 / 8)) / (1 + exp (- (25 / 8)))
     \<and> sum_list (spec_weights (2\<^sup>2) [0, 5]) = 1
     \<and> snd (tract_smooth tie [0] 0 (\<lambda>a. [(0, 0, 0), (5, 0, 0), (5, 12, 0)])) 0 ! 1 = None"
proof
  fix tie :: "vec3 \<Rightarrow> nat \<Rightarrow> nat \<Rightarrow> nat"
  have "snd (tract_smooth tie [0] 0 (\<lambda>a. [(0, 0, 0), (5, 0, 0), (5, 12, 0)])) 0 ! 1 = None"
    using tract_smooth_kernel_weights [of "[0]" "\<lambda>a. [(0, 0, 0), (5, 0, 0), (5, 12, 0)]" 0 0 1 tie]
    by (simp add: Let_def)
  then show "distinct [0 :: nat] \<and> (0 :: real) < 2
     \<and> snd (tract_smooth tie [0] 2 (\<lambda>a. [(0, 0, 0), (5, 0, 0), (5, 12, 0)])) 0 ! 1
         = spec_smooth_point tie [(0, 0, 0), (5, 0, 0), (5, 12, 0)] (2\<^sup>2) 2
             (Some (0, 1, 0)) (5, 0, 0)
     \<and> map fst (query tie [(0, 0, 0), (5, 0, 0), (5, 12, 0)] (5, 0, 0) 2) = [0, 5]
     \<and> spec_weights (2\<^sup>2) [0, 5] ! 1 = exp (- (25 / 8)) / (1 + exp (- (25 / 8)))
     \<and> sum_list (spec_weights (2\<^sup>2) [0, 5]) = 1
     \<and> snd (tract_smooth tie [0] 0 (\<lambda>a. [(0, 0, 0), (5, 0, 0), (5, 12, 0)])) 0 ! 1 = None"
    using tract_smooth_kernel_weights [of "[0]" "\<lambda>a. [(0, 0, 0), (5, 0, 0), (5, 12, 0)]" 2 0 1 tie]
    by (simp add: Let_def corner_neighbor_count corner_tangents corner_query)
qed

text \<open>
  With the parameter 2, the row written for the middle point of the streamline with a
  corner is not the one that the weights \<open>exp (- d\<^sup>2 / (2 * 2))\<close> give, whatever the order
  of the ball tree among equal distances; and with the parameter 0 every weight is \<open>NaN\<close>,
  and the row written is \<open>NaN\<close>.
\<close>

theorem kernel_weights_counterexample:
  "\<forall>tie.
     snd (tract_smooth tie [0] 2 (\<lambda>a. [(0, 0, 0), (5, 0, 0), (5, 12, 0)])) 0 ! 1
       = Some (5 / (1 + exp (- (25 / 8))), 0, 0)
     \<and> spec_smooth_point tie [(0, 0, 0), (5, 0, 0), (5, 12, 0)] 2 2 (Some (0, 1, 0)) (5, 0, 0)
         = Some (5 / (1 + exp (- (25 / 4))), 0, 0)
     \<and> snd (tract_smooth tie [0] 2 (\<lambda>a. [(0, 0, 0), (5, 0, 0), (5, 12, 0)])) 0 ! 1
         \<noteq> spec_smooth_point tie [(0, 0, 0), (5, 0, 0), (5, 12, 0)] 2 2 (Some (0, 1, 0)) (5, 0, 0)
     \<and> snd (tract_smooth tie [0] 0 (\<lambda>a. [(0, 0, 0), (5, 0, 0), (5, 12, 0)])) 0 ! 1 = None"
proof
  fix tie :: "vec3 \<Rightarrow> nat \<Rightarrow> nat \<Rightarrow> nat"
  let ?T = "[(0, 0, 0), (5, 0, 0), (5, 12, 0)] :: vec3 list"
  have a: "snd (tract_smooth tie [0] 2 (\<lambda>a. ?T)) 0 ! 1 = Some (5 / (1 + exp (- (25 / 8))), 0, 0)"
    using corner_row [of 2 tie] by (simp add: corner_neighbor_count)
  have b: "spec_smooth_point tie ?T 2 2 (Some (0, 1, 0)) (5, 0, 0)
             = Some (5 / (1 + exp (- (25 / 4))), 0, 0)"
    by (simp add: spec_smooth_point_def corner_query spec_weights_def projected_points_def
        sum_rows_def normal_plane_def tangent_line_def project_def sum_vec_def scale_vec_def
        add_vec_def sub_vec_def)
  have "exp (- (25 / 8) :: real) \<noteq> exp (- (25 / 4))" by simp
  then have "5 / (1 + exp (- (25 / 8) :: real)) \<noteq> 5 / (1 + exp (- (25 / 4)))"
    by (simp add: add_pos_pos)
  then have c: "snd (tract_smooth tie [0] 2 (\<lambda>a. ?T)) 0 ! 1
                  \<noteq> spec_smooth_point tie ?T 2 2 (Some (0, 1, 0)) (5, 0, 0)"
    unfolding a b by simp
  have "1 \<le> neighbor_count ?T 0 ?T"
    by (rule neighbor_count_bounds) simp_all
  then have "smooth_point tie ?T (0\<^sup>2) (neighbor_count ?T 0 ?T) (tangents ?T ! 1) (?T ! 1) = None"
    by (intro smooth_point_None) simp_all
  then have d: "snd (tract_smooth tie [0] 0 (\<lambda>a. ?T)) 0 ! 1 = None"
    using tract_smooth_row [of "[0]" "\<lambda>a. ?T" 0 1 tie 0] by simp
  show "snd (tract_smooth tie [0] 2 (\<lambda>a. ?T)) 0 ! 1 = Some (5 / (1 + exp (- (25 / 8))), 0, 0)
     \<and> spec_smooth_point tie ?T 2 2 (Some (0, 1, 0)) (5, 0, 0)
         = Some (5 / (1 + exp (- (25 / 4))), 0, 0)
     \<and> snd (tract_smooth tie [0] 2 (\<lambda>a. ?T)) 0 ! 1
         \<noteq> spec_smooth_point tie ?T 2 2 (Some (0, 1, 0)) (5, 0, 0)
     \<and> snd (tract_smooth tie [0] 0 (\<lambda>a. ?T)) 0 ! 1 = None"
    using a b c d by blast
qed

subsection \<open>Smoothing: the input is overwritten\<close>

text \<open>
  Claim C4, as the code has it. Smoothing overwrites its input. For a tractography whose
  streamlines are separate arrays, with at least one point in all and a parameter that is
  not below zero: when every streamline has at least two points, the operation returns
  the tractography's own arrays, each of them now holding the smoothed rows, computed from
  the points that all the arrays held before the call; when a streamline has fewer than
  two points, the operation raises \<open>IndexError\<close>, and the streamlines before the first such
  one are already overwritten. Arrays that are not streamlines of the tractography are as
  they were. The voxelizer, the volume estimate, the kappa value, the Dice coefficient,
  the range of the Bhattacharyya histograms, the mask and the probability maps leave the
  arrays of their tractographies as they were.
\<close>

theorem tract_smooth_in_place:
  assumes "distinct tractography" and "concat (map h tractography) \<noteq> []" and "0 \<le> var"
  shows "tract_smooth tie tractography var h
           = (if \<forall>a \<in> set tractography. 2 \<le> length (h a)
              then Returns tractography else Raises IndexError,
              \<lambda>a. if a \<in> set (takeWhile (\<lambda>a. 2 \<le> length (h a)) tractography)
                   then weighted_points tie (concat (map h tractography)) var (var\<^sup>2) (h a)
                   else map Some (h a))
         \<and> snd (voxelized_tract_on tractography resolution h) = h
         \<and> snd (tract_volume_on tractography resolution h) = h
         \<and> snd (tract_kappa_on tractography resolution other_tracts h) = h
         \<and> snd (tract_dice_on tractography resolution other_tracts h) = h
         \<and> snd (bhattacharyya_range_on tractography other_tracts h) = h
         \<and> snd (tract_mask_on img tractography h) = h
         \<and> snd (tract_probability_map_on img tractography h) = h
         \<and> snd (tract_generate_probability_map_on tractographies img h) = h"
  using tract_smooth_store [OF assms(1,2)]
  by (simp add: voxelized_tract_on_def tract_volume_on_def tract_kappa_on_def tract_dice_on_def
      bhattacharyya_range_on_def tract_mask_on_def tract_probability_map_on_def
      tract_generate_probability_map_on_def)

theorem tract_smooth_in_place_witness:
  "\<forall>tie.
     distinct [0 :: nat, 1] \<and> (0 :: real) \<le> 2
     \<and> tract_smooth tie [0] 2 (\<lambda>a. [(0, 0, 0), (5, 0, 0), (5, 12, 0)])
         = (Returns [0],
            \<lambda>a. if a \<in> set [0]
                 then weighted_points tie [(0, 0, 0), (5, 0, 0), (5, 12, 0)] 2 (2\<^sup>2)
                        [(0, 0, 0), (5, 0, 0), (5, 12, 0)]
                 else [Some (0, 0, 0), Some (5, 0, 0), Some (5, 12, 0)])
     \<and> tract_smooth tie [0, 1] 2
           (\<lambda>a. if a = 0 then [(0, 0, 0), (5, 0, 0), (5, 12, 0)] else [(0, 0, 0)])
         = (Raises IndexError,
            \<lambda>a. if a \<in> set [0]
                 then weighted_points tie
                        [(0, 0, 0), (5, 0, 0), (5, 12, 0), (0, 0, 0)] 2 (2\<^sup>2)
                        [(0, 0, 0), (5, 0, 0), (5, 12, 0)]
                 else [Some (0, 0, 0)])
     \<and> snd (tract_volume_on [0] 1 (\<lambda>a. [(0, 0, 0), (5, 0, 0), (5, 12, 0)]))
         = (\<lambda>a. [(0, 0, 0), (5, 0, 0), (5, 12, 0)])"
proof
  fix tie :: "vec3 \<Rightarrow> nat \<Rightarrow> nat \<Rightarrow> nat"
  let ?T = "[(0, 0, 0), (5, 0, 0), (5, 12, 0)] :: vec3 list"
  let ?h = "\<lambda>a :: nat. if a = 0 then ?T else [(0, 0, 0)]"
  have d: "distinct [0 :: nat]" "distinct [0 :: nat, 1]" and v: "(0 :: real) \<le> 2" by simp_all
  have n: "concat (map (\<lambda>a. ?T) [0 :: nat]) \<noteq> []" "concat (map ?h [0, 1]) \<noteq> []"
    by simp_all
  have a: "tract_smooth tie [0] 2 (\<lambda>a. ?T)
       = (Returns [0],
          \<lambda>a. if a \<in> set [0] then weighted_points tie ?T 2 (2\<^sup>2) ?T
               else [Some (0, 0, 0), Some (5, 0, 0), Some (5, 12, 0)])"
    unfolding conjunct1 [OF tract_smooth_in_place [OF d(1) n(1) v]] by (simp cong: if_cong)
  have b: "tract_smooth tie [0, 1] 2 ?h
       = (Raises IndexError,
          \<lambda>a. if a \<in> set [0]
               then weighted_points tie [(0, 0, 0), (5, 0, 0), (5, 12, 0), (0, 0, 0)]
                      2 (2\<^sup>2) ?T
               else [Some (0, 0, 0)])"
    unfolding conjunct1 [OF tract_smooth_in_place [OF d(2) n(2) v]] by (auto simp: fun_eq_iff)
  have c: "snd (tract_volume_on [0] 1 (\<lambda>a. ?T)) = (\<lambda>a. ?T)"
    using tract_smooth_in_place [OF d(1) n(1) v, of tie 1] by blast
  show "distinct [0 :: nat, 1] \<and> (0 :: real) \<le> 2
     \<and> tract_smooth tie [0] 2 (\<lambda>a. ?T)
         = (Returns [0],
            \<lambda>a. if a \<in> set [0] then weighted_points tie ?T 2 (2\<^sup>2) ?T
                 else [Some (0, 0, 0), Some (5, 0, 0), Some (5, 12, 0)])
     \<and> tract_smooth tie [0, 1] 2 ?h
         = (Raises IndexError,
            \<lambda>a. if a \<in> set [0]
                 then weighted_points tie [(0, 0, 0), (5, 0, 0), (5, 12, 0), (0, 0, 0)]
                        2 (2\<^sup>2) ?T
                 else [Some (0, 0, 0)])
     \<and> snd (tract_volume_on [0] 1 (\<lambda>a. ?T)) = (\<lambda>a. ?T)"
    using a b c d(2) v by blast
qed

text \<open>
  After smoothing the streamline with a corner, the operation has returned the array of
  the input itself, and its middle point is no longer \<open>(5, 0, 0)\<close>.
\<close>

theorem tract_smooth_overwrites_counterexample:
  "\<forall>tie.
     fst (tract_smooth tie [0] 2 (\<lambda>a. [(0, 0, 0), (5, 0, 0), (5, 12, 0)])) = Returns [0]
     \<and> snd (tract_smooth tie [0] 2 (\<lambda>a. [(0, 0, 0), (5, 0, 0), (5, 12, 0)])) 0 ! 1
         = Some (5 / (1 + exp (- (25 / 8))), 0, 0)
     \<and> snd (tract_smooth tie [0] 2 (\<lambda>a. [(0, 0, 0), (5, 0, 0), (5, 12, 0)])) 0 ! 1
         \<noteq> Some (5, 0, 0)"
proof
  fix tie :: "vec3 \<Rightarrow> nat \<Rightarrow> nat \<Rightarrow> nat"
  let ?T = "[(0, 0, 0), (5, 0, 0), (5, 12, 0)] :: vec3 list"
  have a: "snd (tract_smooth tie [0] 2 (\<lambda>a. ?T)) 0 ! 1 = Some (5 / (1 + exp (- (25 / 8))), 0, 0)"
    using corner_row [of 2 tie] by (simp add: corner_neighbor_count)
  have "fst (tract_smooth tie [0] 2 (\<lambda>a. ?T)) = Returns [0]"
    using tract_smooth_store [of "[0]" "\<lambda>a. ?T" tie 2] by simp
  moreover have "5 / (1 + exp (- (25 / 8) :: real)) \<noteq> 5"
  proof -
    define e :: real where "e = exp (- (25 / 8))"
    have "0 < e" by (simp add: e_def)
    then have "5 / (1 + e) \<noteq> 5" by (simp add: divide_eq_eq)
    then show ?thesis by (simp add: e_def)
  qed
  ultimately show "fst (tract_smooth tie [0] 2 (\<lambda>a. ?T)) = Returns [0]
     \<and> snd (tract_smooth tie [0] 2 (\<lambda>a. ?T)) 0 ! 1 = Some (5 / (1 + exp (- (25 / 8))), 0, 0)
     \<and> snd (tract_smooth tie [0] 2 (\<lambda>a. ?T)) 0 ! 1 \<noteq> Some (5, 0, 0)"
    unfolding a by simp
qed

subsection \<open>Smoothing a streamline without near neighbours\<close>




end
